theory Spec2Isabelle
  imports Complex_Main "HOL-Library.Log_Nat" "HOL-Library.Multiset" "HOL-Library.Sublist"
begin

section \<open>Data model of the quiz engine (assets/js/script.js)\<close>

text \<open>
  JavaScript numbers are IEEE doubles. A finite double is modelled by the rational it
  denotes (negative zero is identified with zero); the three other values have their
  own constructors. Counters of the session (\<open>score\<close>, \<open>wrong\<close>, \<open>streak\<close>,
  \<open>questionNumber\<close>) only ever hold small integers and are modelled as \<open>int\<close>.
  Strings are byte lists holding the UTF-8 encoding of the JavaScript string.
\<close>

datatype number = Fin rat | PosInf | NegInf | NaN

text \<open>A value that is a string or \<open>undefined\<close> (an array read out of range).\<close>

datatype jstext = Undefined | Str string

text \<open>
  An entry of an options array: text for the seven textual categories, the object
  \<open>{ name, flag, alt }\<close> for the flag category.
\<close>

datatype opt = Txt jstext | FlagObj string string string

datatype category =
  Population | Area | Gdp | Capital | Currency | Languages | Timezone | Flag

datatype error = TypeError

record country =
  name :: string
  capital :: jstext
  population :: number
  area :: number
  region :: string
  languages :: "string list"
  currencies :: "string list"
  timezones :: "string list"
  flag :: string
  flagAlt :: string
  gdp :: number
  popularity :: number

text \<open>
  The object returned by \<open>generateMultipleChoiceQuestion\<close>. The source's fields
  \<open>type\<close>, \<open>question\<close> and \<open>country\<close> are \<open>qtype\<close>, \<open>prompt\<close> and \<open>subject\<close> here;
  \<open>media\<close> is \<open>Some\<close> of the unshuffled flag options for the flag category.
\<close>

record question =
  qtype :: category
  prompt :: string
  correctAnswer :: jstext
  options :: "opt list"
  explanation :: string
  media :: "opt list option"
  subject :: string

text \<open>An entry of \<open>difficultySettings\<close>: \<open>{ countries: n, popularOnly: b }\<close>.\<close>

record settings =
  countries_cap :: nat
  popularOnly :: bool

text \<open>The fields of a \<open>QuizEngine\<close> instance, as the constructor declares them.\<close>

record engine =
  countries :: "country list"
  extendedData :: "country list"
  currentQuestion :: "question option"
  score :: int
  wrong :: int
  streak :: int
  questionNumber :: int
  totalQuestions :: int
  difficulty :: string
  answeredCurrentQuestion :: bool
  apiKey :: string

definition NINJA_API_KEY :: string where
  "NINJA_API_KEY = ''yMeX7KaoDI7emt/c2uGp8w==7cVk5dAOuVFMhPIN''"

definition difficultySettings :: "(string \<times> settings) list" where
  "difficultySettings =
     [(''easy'', \<lparr>countries_cap = 30, popularOnly = True\<rparr>),
      (''medium'', \<lparr>countries_cap = 100, popularOnly = False\<rparr>),
      (''hard'', \<lparr>countries_cap = 200, popularOnly = False\<rparr>)]"

text \<open>The state the constructor builds.\<close>

definition new_engine :: engine where
  "new_engine =
     \<lparr>countries = [], extendedData = [], currentQuestion = None, score = 0, wrong = 0,
      streak = 0, questionNumber = 0, totalQuestions = 10, difficulty = ''easy'',
      answeredCurrentQuestion = False, apiKey = NINJA_API_KEY\<rparr>"

section \<open>Property lookup on the settings object\<close>

text \<open>
  \<open>difficultySettings\<close> is an object literal, so \<open>this.difficultySettings[level]\<close>
  finds the three own properties and, through the prototype chain, every property of
  \<open>Object.prototype\<close>. Those are functions (and, for \<open>__proto__\<close>, the prototype object
  itself): truthy values with no \<open>countries\<close> and no \<open>popularOnly\<close> property.
\<close>

definition object_prototype_keys :: "string list" where
  "object_prototype_keys =
     [''constructor'', ''__proto__'', ''hasOwnProperty'', ''isPrototypeOf'',
      ''propertyIsEnumerable'', ''toLocaleString'', ''toString'', ''valueOf'',
      ''__defineGetter__'', ''__defineSetter__'', ''__lookupGetter__'',
      ''__lookupSetter__'']"

datatype property = Own settings | Inherited | Absent

definition lookup_settings :: "string \<Rightarrow> property" where
  "lookup_settings level =
     (case map_of difficultySettings level of
        Some s \<Rightarrow> Own s
      | None \<Rightarrow> if level \<in> set object_prototype_keys then Inherited else Absent)"

section \<open>Session state: reset, setDifficulty, checkAnswer\<close>

definition reset :: "engine \<Rightarrow> engine" where
  "reset e =
     e\<lparr>score := 0, wrong := 0, streak := 0, questionNumber := 0,
       currentQuestion := None, answeredCurrentQuestion := False\<rparr>"

text \<open>\<open>if (this.difficultySettings[level])\<close>: any property found is truthy.\<close>

definition setDifficulty :: "string \<Rightarrow> engine \<Rightarrow> engine" where
  "setDifficulty level e =
     (case lookup_settings level of
        Absent \<Rightarrow> e
      | _ \<Rightarrow> reset (e\<lparr>difficulty := level\<rparr>))"

text \<open>The object \<open>{ isCorrect, streak, explanation }\<close> that \<open>checkAnswer\<close> returns.\<close>

record check_result =
  isCorrect :: bool
  result_streak :: int
  result_explanation :: string

text \<open>
  Reading \<open>this.currentQuestion.correctAnswer\<close> throws a TypeError when there is no
  current question, before any field is written. The submitted value is a string or
  \<open>undefined\<close>, compared with \<open>===\<close>. \<open>this.streak % 3 === 0\<close> is divisibility by 3.
\<close>

definition checkAnswer :: "jstext \<Rightarrow> engine \<Rightarrow> error + (check_result \<times> engine)" where
  "checkAnswer userAnswer e =
     (case currentQuestion e of
        None \<Rightarrow> Inl TypeError
      | Some q \<Rightarrow>
          let correct = (userAnswer = correctAnswer q);
              e1 = (if correct then
                      let e2 = e\<lparr>score := score e + 1, streak := streak e + 1\<rparr>
                      in if streak e2 \<ge> 3 \<and> 3 dvd streak e2
                         then e2\<lparr>score := score e2 + 1\<rparr> else e2
                    else e\<lparr>wrong := wrong e + 1, streak := 0\<rparr>);
              e3 = e1\<lparr>answeredCurrentQuestion := True\<rparr>
          in Inr (\<lparr>isCorrect = correct, result_streak = streak e3,
                   result_explanation = explanation q\<rparr>, e3))"

text \<open>A run of submitted answers, stopping at the first exception.\<close>

fun checkAnswers :: "jstext list \<Rightarrow> engine \<Rightarrow> error + engine" where
  "checkAnswers [] e = Inr e"
| "checkAnswers (a # as) e =
     (case checkAnswer a e of Inl err \<Rightarrow> Inl err | Inr (r, e') \<Rightarrow> checkAnswers as e')"

section \<open>Difficulty pool\<close>

text \<open>
  \<open>getCountriesForDifficulty\<close>. With no settings object, \<open>settings.popularOnly\<close>
  throws; with an inherited one, \<open>popularOnly\<close> is \<open>undefined\<close> (falsy) and
  \<open>slice(0, undefined)\<close> copies the whole array.
\<close>

definition getCountriesForDifficulty :: "engine \<Rightarrow> error + country list" where
  "getCountriesForDifficulty e =
     (case lookup_settings (difficulty e) of
        Absent \<Rightarrow> Inl TypeError
      | Inherited \<Rightarrow> Inr (countries e)
      | Own s \<Rightarrow>
          let pool = (if popularOnly s then take 50 (countries e) else countries e)
          in Inr (take (countries_cap s) pool))"

section \<open>Numbers\<close>

text \<open>
  Rounding of an exact value to the nearest double, ties to even: 53 significant bits,
  the exponent not below that of the subnormals, overflow to infinity.
\<close>

definition round_half_even :: "rat \<Rightarrow> int" where
  "round_half_even x =
     (let f = \<lfloor>x\<rfloor>; d = x - of_int f
      in if d < 1 / 2 then f else if 1 / 2 < d then f + 1 else if even f then f else f + 1)"

definition pow2 :: "int \<Rightarrow> rat" where
  "pow2 k = (if 0 \<le> k then 2 ^ nat k else 1 / 2 ^ nat (- k))"

function bit_length :: "int \<Rightarrow> nat" where
  "bit_length n = (if n \<le> 0 then 0 else Suc (bit_length (n div 2)))"
  by pat_completeness auto
termination
  by (relation "measure nat") auto

declare bit_length.simps [simp del]

text \<open>The integer \<open>k\<close> with \<open>2^k \<le> a < 2^(k+1)\<close>, for positive \<open>a\<close>.\<close>

definition floor_log2 :: "rat \<Rightarrow> int" where
  "floor_log2 a =
     (let (p, q) = quotient_of a;
          k = int (bit_length p) - int (bit_length q)
      in if pow2 k \<le> a then k else k - 1)"

definition to_double :: "rat \<Rightarrow> number" where
  "to_double x =
     (if x = 0 then Fin 0
      else let a = \<bar>x\<bar>;
               e = max (floor_log2 a - 52) (- 1074);
               y = of_int (round_half_even (a / pow2 e)) * pow2 e
           in if 2 ^ 1024 \<le> y then (if 0 < x then PosInf else NegInf)
              else Fin (if 0 < x then y else - y))"

text \<open>
  A numeric literal of the source, such as \<open>0.85\<close>: the double nearest to it. All
  literals of the source are positive and finite.
\<close>

definition literal :: "rat \<Rightarrow> rat" where
  "literal q = (case to_double q of Fin a \<Rightarrow> a | _ \<Rightarrow> 0)"

text \<open>\<open>x * c\<close> and \<open>x / c\<close> for a positive finite double \<open>c\<close>.\<close>

fun times :: "number \<Rightarrow> rat \<Rightarrow> number" where
  "times (Fin a) c = to_double (a * c)"
| "times x c = x"

fun over :: "number \<Rightarrow> rat \<Rightarrow> number" where
  "over (Fin a) c = to_double (a / c)"
| "over x c = x"

text \<open>\<open>x >= c\<close>, \<open>x < c\<close> and \<open>x > c\<close> for a finite \<open>c\<close>; every comparison with NaN is false.\<close>

fun ge :: "number \<Rightarrow> rat \<Rightarrow> bool" where
  "ge (Fin a) c = (c \<le> a)"
| "ge PosInf c = True"
| "ge NegInf c = False"
| "ge NaN c = False"

fun lt :: "number \<Rightarrow> rat \<Rightarrow> bool" where
  "lt (Fin a) c = (a < c)"
| "lt PosInf c = False"
| "lt NegInf c = True"
| "lt NaN c = False"

fun gt :: "number \<Rightarrow> rat \<Rightarrow> bool" where
  "gt (Fin a) c = (c < a)"
| "gt PosInf c = True"
| "gt NegInf c = False"
| "gt NaN c = False"

text \<open>\<open>Math.round\<close> rounds halves towards plus infinity; \<open>Math.floor\<close>.\<close>

fun Math_round :: "number \<Rightarrow> number" where
  "Math_round (Fin a) = Fin (of_int \<lfloor>a + 1 / 2\<rfloor>)"
| "Math_round x = x"

fun Math_floor :: "number \<Rightarrow> number" where
  "Math_floor (Fin a) = Fin (of_int \<lfloor>a\<rfloor>)"
| "Math_floor x = x"

text \<open>\<open>x || 0\<close>: zero and NaN are falsy.\<close>

fun or_zero :: "number \<Rightarrow> number" where
  "or_zero NaN = Fin 0"
| "or_zero x = x"

section \<open>Number formatting\<close>

definition digit_char :: "nat \<Rightarrow> char" where
  "digit_char d = ''0123456789'' ! d"

text \<open>The decimal digits of a non-negative integer.\<close>

function digits :: "int \<Rightarrow> string" where
  "digits n =
     (if n < 10 then [digit_char (nat n)]
      else digits (n div 10) @ [digit_char (nat (n mod 10))])"
  by pat_completeness auto
termination
  by (relation "measure nat") auto

declare digits.simps [simp del]

text \<open>
  \<open>Number.prototype.toFixed(d)\<close>: the integer \<open>n\<close> nearest to \<open>x * 10^d\<close> (the larger
  one on a tie), written with \<open>d\<close> digits after the point; the sign is that of \<open>x\<close>.
  From \<open>10^21\<close> on JavaScript prints an exponent instead: the model is exact below.
\<close>

definition pad_zeros :: "nat \<Rightarrow> string \<Rightarrow> string" where
  "pad_zeros n s = replicate (n - length s) (CHR ''0'') @ s"

fun toFixed :: "nat \<Rightarrow> number \<Rightarrow> string" where
  "toFixed d (Fin x) =
     (let s = pad_zeros (d + 1) (digits \<lfloor>\<bar>x\<bar> * 10 ^ d + 1 / 2\<rfloor>);
          whole = take (length s - d) s;
          frac = drop (length s - d) s
      in (if x < 0 then ''-'' else '''') @ whole @ (if d = 0 then '''' else ''.'' @ frac))"
| "toFixed d PosInf = ''Infinity''"
| "toFixed d NegInf = ''-Infinity''"
| "toFixed d NaN = ''NaN''"

text \<open>
  \<open>toLocaleString()\<close> is called without a locale. ECMAScript leaves its result to the
  host: it follows the conventions of the host's current locale. The host's function is
  therefore a parameter, \<open>toLocaleString\<close>, of every function that formats a number.
\<close>

type_synonym host = "number \<Rightarrow> string"

definition formatPopulation :: "host \<Rightarrow> number \<Rightarrow> string" where
  "formatPopulation toLocaleString pop =
     (if ge pop 1000000000 then toFixed 2 (over pop 1000000000) @ '' billion''
      else if ge pop 1000000 then toFixed 1 (over pop 1000000) @ '' million''
      else toLocaleString pop)"

text \<open>The suffix is a space, \<open>km\<close> and U+00B2.\<close>

definition formatArea :: "host \<Rightarrow> number \<Rightarrow> string" where
  "formatArea toLocaleString a = toLocaleString a @ '' km'' @ [CHR 0xC2, CHR 0xB2]"

definition formatGDP :: "host \<Rightarrow> number \<Rightarrow> string" where
  "formatGDP toLocaleString g =
     (if ge g 1000000000000 then ''$'' @ toFixed 2 (over g 1000000000000) @ '' trillion''
      else if ge g 1000000000 then ''$'' @ toFixed 1 (over g 1000000000) @ '' billion''
      else if ge g 1000000 then ''$'' @ toFixed 0 (over g 1000000) @ '' million''
      else ''$'' @ toLocaleString g)"

section \<open>Strings\<close>

text \<open>
  The characters that \<open>\s\<close> in a regular expression, \<open>trim()\<close> and \<open>parseFloat\<close>
  treat as white space (U+0009 to U+000D, U+0020, U+00A0, U+1680, U+2000 to U+200A,
  U+2028, U+2029, U+202F, U+205F, U+3000, U+FEFF), in UTF-8.
\<close>

definition white_space :: "string list" where
  "white_space =
     [[CHR 0x09], [CHR 0x0A], [CHR 0x0B], [CHR 0x0C], [CHR 0x0D], [CHR 0x20],
      [CHR 0xC2, CHR 0xA0], [CHR 0xE1, CHR 0x9A, CHR 0x80],
      [CHR 0xE2, CHR 0x80, CHR 0x80], [CHR 0xE2, CHR 0x80, CHR 0x81],
      [CHR 0xE2, CHR 0x80, CHR 0x82], [CHR 0xE2, CHR 0x80, CHR 0x83],
      [CHR 0xE2, CHR 0x80, CHR 0x84], [CHR 0xE2, CHR 0x80, CHR 0x85],
      [CHR 0xE2, CHR 0x80, CHR 0x86], [CHR 0xE2, CHR 0x80, CHR 0x87],
      [CHR 0xE2, CHR 0x80, CHR 0x88], [CHR 0xE2, CHR 0x80, CHR 0x89],
      [CHR 0xE2, CHR 0x80, CHR 0x8A], [CHR 0xE2, CHR 0x80, CHR 0xA8],
      [CHR 0xE2, CHR 0x80, CHR 0xA9], [CHR 0xE2, CHR 0x80, CHR 0xAF],
      [CHR 0xE2, CHR 0x81, CHR 0x9F], [CHR 0xE3, CHR 0x80, CHR 0x80],
      [CHR 0xEF, CHR 0xBB, CHR 0xBF]]"

text \<open>The number of bytes of the character of \<open>ws\<close> that \<open>s\<close> starts with, or 0.\<close>

definition starts_with :: "string list \<Rightarrow> string \<Rightarrow> nat" where
  "starts_with ws s = (case filter (\<lambda>w. prefix w s) ws of [] \<Rightarrow> 0 | w # _ \<Rightarrow> length w)"

text \<open>\<open>value.replace(/[,\s]/g, '')\<close>.\<close>

function remove_commas_spaces :: "string \<Rightarrow> string" where
  "remove_commas_spaces [] = []"
| "remove_commas_spaces (c # cs) =
     (if c = CHR '','' then remove_commas_spaces cs
      else if 0 < starts_with white_space (c # cs)
      then remove_commas_spaces (drop (starts_with white_space (c # cs)) (c # cs))
      else c # remove_commas_spaces cs)"
  by pat_completeness auto
termination
  by (relation "measure length") auto

function drop_leading :: "string list \<Rightarrow> string \<Rightarrow> string" where
  "drop_leading ws [] = []"
| "drop_leading ws (c # cs) =
     (if 0 < starts_with ws (c # cs)
      then drop_leading ws (drop (starts_with ws (c # cs)) (c # cs))
      else c # cs)"
  by pat_completeness auto
termination
  by (relation "measure (\<lambda>(ws, s). length s)") auto

definition trimStart :: "string \<Rightarrow> string" where
  "trimStart s = drop_leading white_space s"

definition trimEnd :: "string \<Rightarrow> string" where
  "trimEnd s = rev (drop_leading (map rev white_space) (rev s))"

definition trim :: "string \<Rightarrow> string" where
  "trim s = trimEnd (trimStart s)"

text \<open>\<open>s.split(',')\<close>: the pieces between commas, one more than there are commas.\<close>

fun split_comma :: "string \<Rightarrow> string list" where
  "split_comma [] = [[]]"
| "split_comma (c # cs) =
     (if c = CHR '','' then [] # split_comma cs
      else (c # hd (split_comma cs)) # tl (split_comma cs))"

section \<open>parseFloat and normalizePopulation\<close>

definition is_digit :: "char \<Rightarrow> bool" where
  "is_digit c = (c \<in> set ''0123456789'')"

definition decimal :: "string \<Rightarrow> int" where
  "decimal ds = foldl (\<lambda>n c. 10 * n + (of_char c - 48)) 0 ds"

definition pow10 :: "int \<Rightarrow> rat" where
  "pow10 k = (if 0 \<le> k then 10 ^ nat k else 1 / 10 ^ nat (- k))"

text \<open>An optional sign: whether it is a minus, and the rest of the string.\<close>

definition sign_of :: "string \<Rightarrow> bool \<times> string" where
  "sign_of s =
     (if s \<noteq> [] \<and> hd s = CHR ''-'' then (True, tl s)
      else if s \<noteq> [] \<and> hd s = CHR ''+'' then (False, tl s)
      else (False, s))"

text \<open>
  The exponent part \<open>e\<close> or \<open>E\<close>, an optional sign and at least one digit; anything else
  is not an exponent and counts as 0.
\<close>

definition exponent_part :: "string \<Rightarrow> int" where
  "exponent_part s =
     (if s \<noteq> [] \<and> (hd s = CHR ''e'' \<or> hd s = CHR ''E'') then
        let (neg, r) = sign_of (tl s); ds = takeWhile is_digit r
        in if ds = [] then 0 else if neg then - decimal ds else decimal ds
      else 0)"

text \<open>
  \<open>parseFloat\<close>: leading white space is skipped, then the longest prefix that is a
  decimal literal (or \<open>Infinity\<close>) is read; NaN when there is none.
\<close>

definition parseFloat :: "string \<Rightarrow> number" where
  "parseFloat s =
     (let (neg, u) = sign_of (trimStart s)
      in if prefix ''Infinity'' u then (if neg then NegInf else PosInf)
         else
           let d1 = takeWhile is_digit u;
               r1 = dropWhile is_digit u;
               dot = (r1 \<noteq> [] \<and> hd r1 = CHR ''.'');
               d2 = (if dot then takeWhile is_digit (tl r1) else []);
               r2 = (if dot then dropWhile is_digit (tl r1) else r1)
           in if d1 = [] \<and> d2 = [] then NaN
              else
                let m = of_int (decimal (d1 @ d2)) / 10 ^ length d2 * pow10 (exponent_part r2)
                in to_double (if neg then - m else m))"

text \<open>The argument of \<open>normalizePopulation\<close>: any value a JSON payload can hold.\<close>

datatype jsvalue =
  JUndefined | JNull | JBoolean bool | JNumber number | JString string | JObject

text \<open>The thresholds applied once the argument is a number \<open>n\<close>.\<close>

definition population_heuristic :: "number \<Rightarrow> number" where
  "population_heuristic n =
     (if ge n 1000000 then Math_round n
      else if lt n 10 then Math_round (times n 1000000)
      else if lt n 10000 then Math_round (times n 1000)
      else Math_round n)"

fun normalizePopulation :: "jsvalue \<Rightarrow> number" where
  "normalizePopulation JUndefined = Fin 0"
| "normalizePopulation JNull = Fin 0"
| "normalizePopulation (JString s) =
     (let n = parseFloat (remove_commas_spaces s)
      in if n = NaN then Fin 0 else population_heuristic n)"
| "normalizePopulation (JNumber n) = population_heuristic n"
| "normalizePopulation (JBoolean b) = Fin 0"
| "normalizePopulation JObject = Fin 0"

section \<open>Mapping the upstream payloads\<close>

text \<open>The table of \<open>getCountryCode\<close>, from country name to the code in the flag URL.\<close>

definition countryCodes :: "(string \<times> string) list" where
  "countryCodes =
     [(''United States'', ''us''), (''China'', ''cn''), (''India'', ''in''),
      (''Brazil'', ''br''), (''Russia'', ''ru''), (''Japan'', ''jp''), (''Germany'', ''de''),
      (''United Kingdom'', ''gb''), (''France'', ''fr''), (''Italy'', ''it''),
      (''Canada'', ''ca''), (''South Korea'', ''kr''), (''Spain'', ''es''),
      (''Australia'', ''au''), (''Mexico'', ''mx''), (''Indonesia'', ''id''),
      (''Netherlands'', ''nl''), (''Saudi Arabia'', ''sa''), (''Turkey'', ''tr''),
      (''Switzerland'', ''ch''), (''Poland'', ''pl''), (''Belgium'', ''be''),
      (''Sweden'', ''se''), (''Argentina'', ''ar''), (''Norway'', ''no''),
      (''Austria'', ''at''), (''United Arab Emirates'', ''ae''), (''Ireland'', ''ie''),
      (''Israel'', ''il''), (''Singapore'', ''sg''), (''Denmark'', ''dk''),
      (''South Africa'', ''za''), (''Egypt'', ''eg''), (''Philippines'', ''ph''),
      (''Pakistan'', ''pk''), (''Vietnam'', ''vn''), (''Bangladesh'', ''bd''),
      (''Chile'', ''cl''), (''Colombia'', ''co''), (''Finland'', ''fi''),
      (''Portugal'', ''pt''), (''Greece'', ''gr''), (''New Zealand'', ''nz''),
      (''Peru'', ''pe''), (''Czech Republic'', ''cz''), (''Romania'', ''ro''),
      (''Iraq'', ''iq''), (''Qatar'', ''qa''), (''Kazakhstan'', ''kz''), (''Hungary'', ''hu''),
      (''Kuwait'', ''kw''), (''Morocco'', ''ma''), (''Ukraine'', ''ua''),
      (''Ethiopia'', ''et''), (''Kenya'', ''ke''), (''Ecuador'', ''ec''),
      (''Dominican Republic'', ''do''), (''Guatemala'', ''gt''), (''Oman'', ''om''),
      (''Venezuela'', ''ve''), (''Luxembourg'', ''lu''), (''Bulgaria'', ''bg''),
      (''Costa Rica'', ''cr''), (''Uruguay'', ''uy''), (''Croatia'', ''hr''),
      (''Tanzania'', ''tz''), (''Lithuania'', ''lt''), (''Slovenia'', ''si''),
      (''Serbia'', ''rs''), (''Ghana'', ''gh''), (''Jordan'', ''jo''), (''Tunisia'', ''tn''),
      (''Bolivia'', ''bo''), (''Ivory Coast'', ''ci''), (''Paraguay'', ''py''),
      (''Libya'', ''ly''), (''Uganda'', ''ug''), (''Panama'', ''pa''), (''Latvia'', ''lv''),
      (''Estonia'', ''ee''), (''Nepal'', ''np''), (''Cameroon'', ''cm''),
      (''Bahrain'', ''bh''), (''Honduras'', ''hn''), (''Iceland'', ''is''),
      (''Trinidad and Tobago'', ''tt''), (''Senegal'', ''sn''), (''Cambodia'', ''kh''),
      (''Cyprus'', ''cy''), (''Zimbabwe'', ''zw''), (''Papua New Guinea'', ''pg''),
      (''Zambia'', ''zm''), (''Albania'', ''al''), (''Mozambique'', ''mz''),
      (''Botswana'', ''bw''), (''Gabon'', ''ga''), (''Jamaica'', ''jm''), (''Malta'', ''mt''),
      (''Mauritius'', ''mu''), (''Brunei'', ''bn''), (''Mongolia'', ''mn''),
      (''Armenia'', ''am''), (''Namibia'', ''na''), (''Madagascar'', ''mg''),
      (''Nicaragua'', ''ni''), (''Macedonia'', ''mk''), (''Burkina Faso'', ''bf''),
      (''Mali'', ''ml''), (''Bahamas'', ''bs''), (''Haiti'', ''ht''), (''Benin'', ''bj''),
      (''Rwanda'', ''rw''), (''Niger'', ''ne''), (''Guinea'', ''gn''), (''Malawi'', ''mw''),
      (''Tajikistan'', ''tj''), (''Montenegro'', ''me''), (''Kosovo'', ''xk''),
      (''Kyrgyzstan'', ''kg''), (''Moldova'', ''md''), (''Barbados'', ''bb''),
      (''Fiji'', ''fj''), (''Togo'', ''tg''), (''Liberia'', ''lr''), (''Mauritania'', ''mr''),
      (''Suriname'', ''sr''), (''Maldives'', ''mv''), (''Guyana'', ''gy'')]"

text \<open>
  \<open>countryCodes[countryName] || 'un'\<close>. The names passed in are those of the list in
  \<open>init\<close>; none of them is a property the table object inherits.
\<close>

definition getCountryCode :: "string \<Rightarrow> string" where
  "getCountryCode countryName =
     (case map_of countryCodes countryName of Some code \<Rightarrow> code | None \<Rightarrow> ''un'')"

text \<open>
  A country object of the primary source, with the field types its consumer handles:
  strings that may be missing, a population of any type, a currency that is an object
  with a name or a string, languages that are an array or a comma-separated string.
\<close>

datatype ninja_currency = NoCurrency | CurrencyObject "string option" | CurrencyString string

datatype ninja_languages = NoLanguages | LanguageArray "string list" | LanguageString string

record ninja_country =
  n_name :: "string option"
  n_capital :: "string option"
  n_population :: jsvalue
  n_surface_area :: "number option"
  n_region :: "string option"
  n_currency :: ninja_currency
  n_gdp :: "number option"
  n_languages :: ninja_languages
  n_timezone :: "string option"

text \<open>\<open>s || d\<close> for a string property \<open>s\<close>: missing and empty strings are falsy.\<close>

fun or_string :: "string option \<Rightarrow> string \<Rightarrow> string" where
  "or_string None d = d"
| "or_string (Some s) d = (if s = [] then d else s)"

text \<open>\<open>x || 0\<close> for a numeric property that may be missing.\<close>

fun or_zero_opt :: "number option \<Rightarrow> number" where
  "or_zero_opt None = Fin 0"
| "or_zero_opt (Some x) = or_zero x"

text \<open>
  \<open>mapNinjaCountry(data, countryName)\<close>. \<open>data\<close> is \<open>None\<close> when the response body is
  not an array; the result is \<open>None\<close> for the source's \<open>null\<close>.
\<close>

definition mapNinjaCountry :: "ninja_country list option \<Rightarrow> string \<Rightarrow> country option" where
  "mapNinjaCountry data countryName =
     (case data of
        None \<Rightarrow> None
      | Some [] \<Rightarrow> None
      | Some (c # _) \<Rightarrow>
          let normalizedPopulation = normalizePopulation (n_population c);
              langs = (case n_languages c of
                         LanguageArray ls \<Rightarrow> ls
                       | LanguageString s \<Rightarrow>
                           if 0 < length s
                           then filter (\<lambda>l. l \<noteq> []) (map trim (split_comma s))
                           else [''Unknown'']
                       | NoLanguages \<Rightarrow> [''Unknown'']);
              currencyName = (case n_currency c of
                                CurrencyObject nm \<Rightarrow> or_string nm ''Unknown''
                              | CurrencyString s \<Rightarrow> s
                              | NoCurrency \<Rightarrow> ''Unknown'')
          in Some \<lparr>name = or_string (n_name c) countryName,
                   capital = Str (or_string (n_capital c) ''N/A''),
                   population = normalizedPopulation,
                   area = or_zero_opt (n_surface_area c),
                   region = or_string (n_region c) ''Unknown'',
                   languages = langs,
                   currencies = (if currencyName \<noteq> [] then [currencyName] else [''Unknown'']),
                   timezones = [or_string (n_timezone c) ''UTC''],
                   flag = ''https://flagcdn.com/w320/'' @ getCountryCode countryName @ ''.png'',
                   flagAlt = ''Flag of '' @ countryName,
                   gdp = or_zero_opt (n_gdp c),
                   popularity = normalizedPopulation\<rparr>)"

text \<open>
  A country object of the bulk source. \<open>languages\<close> is an object from code to name and
  \<open>currencies\<close> one from code to \<open>{ name }\<close>, both as association lists in the order
  of \<open>Object.values\<close>.
\<close>

record rest_flags =
  png :: "string option"
  svg :: "string option"
  alt :: "string option"

record rest_country =
  r_name_common :: string
  r_capital :: "string list option"
  r_population :: "number option"
  r_area :: "number option"
  r_region :: "string option"
  r_languages :: "(string \<times> string) list option"
  r_currencies :: "(string \<times> string) list option"
  r_timezones :: "string list option"
  r_flags :: "rest_flags option"

text \<open>The object built for one country by the \<open>map\<close> callback of \<open>loadFromRestCountries\<close>.\<close>

definition mapRestCountry :: "rest_country \<Rightarrow> country" where
  "mapRestCountry c =
     \<lparr>name = r_name_common c,
      capital = (case r_capital c of
                   None \<Rightarrow> Str ''N/A''
                 | Some [] \<Rightarrow> Undefined
                 | Some (x # _) \<Rightarrow> Str x),
      population = or_zero_opt (r_population c),
      area = or_zero_opt (r_area c),
      region = or_string (r_region c) ''Unknown'',
      languages = (case r_languages c of None \<Rightarrow> [] | Some ls \<Rightarrow> map snd ls),
      currencies = (case r_currencies c of None \<Rightarrow> [] | Some cs \<Rightarrow> map snd cs),
      timezones = (case r_timezones c of None \<Rightarrow> [] | Some ts \<Rightarrow> ts),
      flag = (case r_flags c of
                None \<Rightarrow> []
              | Some f \<Rightarrow> or_string (png f) (or_string (svg f) [])),
      flagAlt = or_string (case r_flags c of None \<Rightarrow> None | Some f \<Rightarrow> alt f)
                  (''Flag of '' @ r_name_common c),
      gdp = Fin 0,
      popularity = or_zero_opt (r_population c)\<rparr>"

datatype load_error = FetchFailed

text \<open>
  \<open>loadFromRestCountries\<close>, given the outcome of the request: \<open>None\<close> when the
  response is not ok, which throws; otherwise the parsed body.
\<close>

definition loadFromRestCountries :: "rest_country list option \<Rightarrow> engine \<Rightarrow> load_error + engine" where
  "loadFromRestCountries response e =
     (case response of
        None \<Rightarrow> Inl FetchFailed
      | Some data \<Rightarrow>
          Inr (e\<lparr>countries := filter (\<lambda>c. gt (population c) 0) (map mapRestCountry data)\<rparr>))"

section \<open>Randomness\<close>

text \<open>
  The successive results of \<open>Math.random()\<close> are an arbitrary infinite sequence; the
  functions that draw from it take the position of the next draw and return the position
  after their last one. \<open>Math.floor(Math.random() * n)\<close> can be any integer from 0 to
  \<open>n - 1\<close> (and is 0 when \<open>n\<close> is 0): the draw \<open>r\<close> yields \<open>r mod n\<close>.
\<close>

type_synonym random = "nat \<Rightarrow> nat"

definition floor_random :: "random \<Rightarrow> nat \<Rightarrow> nat \<Rightarrow> nat" where
  "floor_random rnd k n = (if n = 0 then 0 else rnd k mod n)"

text \<open>
  \<open>shuffleArray\<close>: the loop for \<open>i\<close> from \<open>length - 1\<close> down to 1, swapping the entries
  at \<open>i\<close> and at a random \<open>j \<le> i\<close>.
\<close>

fun shuffle_from :: "random \<Rightarrow> nat \<Rightarrow> nat \<Rightarrow> 'a list \<Rightarrow> 'a list \<times> nat" where
  "shuffle_from rnd k 0 shuffled = (shuffled, k)"
| "shuffle_from rnd k (Suc i) shuffled =
     (let j = floor_random rnd k (Suc i + 1)
      in shuffle_from rnd (Suc k) i (shuffled[Suc i := shuffled ! j, j := shuffled ! Suc i]))"

definition shuffleArray :: "random \<Rightarrow> nat \<Rightarrow> 'a list \<Rightarrow> 'a list \<times> nat" where
  "shuffleArray rnd k array = shuffle_from rnd k (length array - 1) array"

section \<open>Distractor options\<close>

text \<open>
  The multipliers of the three numeric categories: those of easy, those of medium, and
  for every other difficulty those of hard.
\<close>

definition multipliers :: "string \<Rightarrow> rat list \<Rightarrow> rat list \<Rightarrow> rat list \<Rightarrow> rat list" where
  "multipliers d easy medium hard =
     map literal (if d = ''easy'' then easy else if d = ''medium'' then medium else hard)"

definition generatePopulationOptions :: "host \<Rightarrow> string \<Rightarrow> number \<Rightarrow> opt list" where
  "generatePopulationOptions toLocaleString d correctPop =
     Txt (Str (formatPopulation toLocaleString correctPop)) #
     map (\<lambda>mult. Txt (Str (formatPopulation toLocaleString (Math_floor (times correctPop mult)))))
       (multipliers d [5 / 10, 2, 5] [7 / 10, 15 / 10, 3] [85 / 100, 115 / 100, 14 / 10])"

definition generateAreaOptions :: "host \<Rightarrow> string \<Rightarrow> number \<Rightarrow> opt list" where
  "generateAreaOptions toLocaleString d correctArea =
     Txt (Str (formatArea toLocaleString correctArea)) #
     map (\<lambda>mult. Txt (Str (formatArea toLocaleString (Math_floor (times correctArea mult)))))
       (multipliers d [4 / 10, 25 / 10, 6] [6 / 10, 17 / 10, 35 / 10] [8 / 10, 12 / 10, 16 / 10])"

definition generateGDPOptions :: "host \<Rightarrow> string \<Rightarrow> number \<Rightarrow> opt list" where
  "generateGDPOptions toLocaleString d correctGDP =
     Txt (Str (formatGDP toLocaleString correctGDP)) #
     map (\<lambda>mult. Txt (Str (formatGDP toLocaleString (Math_floor (times correctGDP mult)))))
       (multipliers d [3 / 10, 2, 7] [5 / 10, 18 / 10, 4] [75 / 100, 125 / 100, 19 / 10])"

text \<open>
  The sampling loop of the capital, currency, language and time zone generators:
  \<^verbatim>\<open>while (options.length < 4 && others.length > 0) {
    const idx = Math.floor(Math.random() * others.length);
    const x = others.splice(idx, 1)[0];
    if (!options.includes(x)) options.push(x);
  }\<close>
\<close>

function pick_distinct :: "random \<Rightarrow> nat \<Rightarrow> 'a list \<Rightarrow> 'a list \<Rightarrow> 'a list \<times> nat" where
  "pick_distinct rnd k opts others =
     (if length opts < 4 \<and> 0 < length others then
        let idx = floor_random rnd k (length others);
            x = others ! idx;
            rest = take idx others @ drop (Suc idx) others
        in pick_distinct rnd (Suc k) (if x \<in> set opts then opts else opts @ [x]) rest
      else (opts, k))"
  by pat_completeness auto
termination
proof (relation "measure (\<lambda>(rnd, k, opts, others). length others)")
  show "wf (measure (\<lambda>(rnd, k, opts, others). length others))"
    by simp
next
  fix rnd :: random and k :: nat and opts others :: "'a list" and idx x rest
  assume a: "length opts < 4 \<and> 0 < length others"
    and i: "idx = floor_random rnd k (length others)"
    and r: "rest = take idx others @ drop (Suc idx) others"
  from a i have "idx < length others"
    by (simp add: floor_random_def)
  with r have "length rest < length others"
    by simp
  then show "((rnd, Suc k, if x \<in> set opts then opts else opts @ [x], rest),
              rnd, k, opts, others) \<in> measure (\<lambda>(rnd, k, opts, others). length others)"
    by simp
qed

declare pick_distinct.simps [simp del]

text \<open>The loop of \<open>generateFlagOptions\<close>, which pushes every pick.\<close>

function pick_any :: "random \<Rightarrow> nat \<Rightarrow> 'a list \<Rightarrow> 'a list \<Rightarrow> 'a list \<times> nat" where
  "pick_any rnd k opts others =
     (if length opts < 4 \<and> 0 < length others then
        let idx = floor_random rnd k (length others);
            rest = take idx others @ drop (Suc idx) others
        in pick_any rnd (Suc k) (opts @ [others ! idx]) rest
      else (opts, k))"
  by pat_completeness auto
termination
proof (relation "measure (\<lambda>(rnd, k, opts, others). length others)")
  show "wf (measure (\<lambda>(rnd, k, opts, others). length others))"
    by simp
next
  fix rnd :: random and k :: nat and opts others :: "'a list" and idx rest
  assume a: "length opts < 4 \<and> 0 < length others"
    and i: "idx = floor_random rnd k (length others)"
    and r: "rest = take idx others @ drop (Suc idx) others"
  from a i have "idx < length others"
    by (simp add: floor_random_def)
  with r have "length rest < length others"
    by simp
  then show "((rnd, Suc k, opts @ [others ! idx], rest), rnd, k, opts, others)
               \<in> measure (\<lambda>(rnd, k, opts, others). length others)"
    by simp
qed

declare pick_any.simps [simp del]

text \<open>\<open>xs[0]\<close>, which is \<open>undefined\<close> on an empty array.\<close>

fun first :: "string list \<Rightarrow> jstext" where
  "first [] = Undefined"
| "first (x # _) = Str x"

text \<open>\<open>xs[0] || 'Unknown'\<close>: \<open>undefined\<close> and the empty string are falsy.\<close>

fun first_or_unknown :: "string list \<Rightarrow> string" where
  "first_or_unknown [] = ''Unknown''"
| "first_or_unknown (x # _) = (if x = [] then ''Unknown'' else x)"

text \<open>\<open>[...new Set(xs)]\<close> keeps the first occurrence of each element, in order.\<close>

definition unique :: "'a list \<Rightarrow> 'a list" where
  "unique xs = rev (remdups (rev xs))"

definition generateCapitalOptions :: "random \<Rightarrow> nat \<Rightarrow> country \<Rightarrow> country list \<Rightarrow> jstext list \<times> nat" where
  "generateCapitalOptions rnd k c pool =
     (let otherCapitals =
            map capital (filter (\<lambda>x. name x \<noteq> name c \<and> capital x \<noteq> Str ''N/A'') pool)
      in pick_distinct rnd k [capital c] otherCapitals)"

definition generateCurrencyOptions :: "random \<Rightarrow> nat \<Rightarrow> country \<Rightarrow> country list \<Rightarrow> jstext list \<times> nat" where
  "generateCurrencyOptions rnd k c pool =
     (let otherCurrencies =
            concat (map currencies (filter (\<lambda>x. name x \<noteq> name c \<and> 0 < length (currencies x)) pool))
      in pick_distinct rnd k [first (currencies c)] (map Str otherCurrencies))"

definition common_languages :: "string list" where
  "common_languages =
     [''English'', ''Spanish'', ''French'', ''Arabic'', ''Hindi'', ''Bengali'', ''Portuguese'',
      ''Russian'', ''German'', ''Japanese'', ''Turkish'', ''Italian'', ''Korean'', ''Vietnamese'',
      ''Urdu'', ''Persian'']"

text \<open>
  The padding loop of \<open>generateLanguageOptions\<close> over the common languages, from the
  first one on, while there are fewer than four options.
\<close>

fun pad_common :: "string \<Rightarrow> string list \<Rightarrow> string list \<Rightarrow> string list" where
  "pad_common correct opts [] = opts"
| "pad_common correct opts (l # ls) =
     (if length opts < 4
      then pad_common correct
             (if l \<noteq> correct \<and> l \<notin> set opts then opts @ [l] else opts) ls
      else opts)"

definition generateLanguageOptions :: "random \<Rightarrow> nat \<Rightarrow> country \<Rightarrow> country list \<Rightarrow> string list \<times> nat" where
  "generateLanguageOptions rnd k c pool =
     (let correct = first_or_unknown (languages c);
          options0 = (if correct \<noteq> ''Unknown'' then [correct] else []);
          otherLanguages =
            filter (\<lambda>l. l \<noteq> [] \<and> l \<noteq> ''Unknown'')
              (concat (map languages
                 (filter (\<lambda>x. name x \<noteq> name c \<and> 0 < length (languages x)) pool)));
          languagePool = filter (\<lambda>l. l \<noteq> correct) (unique (otherLanguages @ common_languages));
          (options1, k1) = pick_distinct rnd k options0 languagePool;
          options2 = pad_common correct options1 common_languages;
          options3 = (if correct = ''Unknown'' \<and> 0 < length options2 \<and> ''English'' \<notin> set options2
                      then options2[0 := ''English''] else options2)
      in (options3, k1))"

definition commonTimezones :: "string list" where
  "commonTimezones =
     [''UTC'', ''UTC+01:00'', ''UTC+02:00'', ''UTC+03:00'', ''UTC+04:00'', ''UTC+05:00'',
      ''UTC+05:30'', ''UTC+06:00'', ''UTC+07:00'', ''UTC+08:00'', ''UTC+09:00'', ''UTC+10:00'',
      ''UTC-05:00'', ''UTC-04:00'', ''UTC-03:00'', ''UTC-06:00'', ''UTC-07:00'', ''UTC-08:00'',
      ''America/New_York'', ''America/Chicago'', ''America/Denver'', ''America/Los_Angeles'',
      ''Europe/London'', ''Europe/Paris'', ''Europe/Berlin'', ''Europe/Moscow'',
      ''Asia/Tokyo'', ''Asia/Shanghai'', ''Asia/Dubai'', ''Asia/Kolkata'',
      ''Australia/Sydney'', ''Pacific/Auckland'']"

text \<open>
  The fallback loop of \<open>generateTimezoneOptions\<close>, which draws \<open>UTC+n:00\<close> until there
  are four options. It has no bound of its own: a run that never ends is \<open>None\<close>.
\<close>

partial_function (option) timezone_fallback ::
    "random \<Rightarrow> nat \<Rightarrow> jstext list \<Rightarrow> (jstext list \<times> nat) option" where
  "timezone_fallback rnd k opts =
     (if length opts < 4 then
        let fallback = Str (''UTC+'' @ digits (int (floor_random rnd k 12)) @ '':00'')
        in timezone_fallback rnd (Suc k)
             (if fallback \<in> set opts then opts else opts @ [fallback])
      else Some (opts, k))"

declare timezone_fallback.simps [code]

definition generateTimezoneOptions ::
    "random \<Rightarrow> nat \<Rightarrow> country \<Rightarrow> country list \<Rightarrow> (jstext list \<times> nat) option" where
  "generateTimezoneOptions rnd k c pool =
     (let otherTimezones =
            concat (map timezones (filter (\<lambda>x. name x \<noteq> name c \<and> 0 < length (timezones x)) pool));
          allTimezones = unique (otherTimezones @ commonTimezones);
          (options1, k1) = pick_distinct rnd k [first (timezones c)] (map Str allTimezones)
      in timezone_fallback rnd k1 options1)"

definition generateFlagOptions :: "random \<Rightarrow> nat \<Rightarrow> country \<Rightarrow> country list \<Rightarrow> opt list \<times> nat" where
  "generateFlagOptions rnd k c pool =
     (let otherCountries = filter (\<lambda>x. name x \<noteq> name c \<and> flag x \<noteq> []) pool
      in pick_any rnd k [FlagObj (name c) (flag c) (flagAlt c)]
           (map (\<lambda>x. FlagObj (name x) (flag x) (flagAlt x)) otherCountries))"

section \<open>Question generation\<close>

text \<open>A string or \<open>undefined\<close> inside a template literal.\<close>

fun to_text :: "jstext \<Rightarrow> string" where
  "to_text Undefined = ''undefined''"
| "to_text (Str s) = s"

definition questionTypes :: "category list" where
  "questionTypes = [Population, Area, Gdp, Capital, Currency, Languages, Timezone, Flag]"

text \<open>The returned object: the options are shuffled last, the media keep their order.\<close>

definition make_question ::
    "random \<Rightarrow> nat \<Rightarrow> category \<Rightarrow> string \<Rightarrow> jstext \<Rightarrow> opt list \<Rightarrow> string \<Rightarrow> opt list option \<Rightarrow>
     string \<Rightarrow> question \<times> nat" where
  "make_question rnd k t q correct opts expl med subj =
     (let (shuffled, k') = shuffleArray rnd k opts
      in (\<lparr>qtype = t, prompt = q, correctAnswer = correct, options = shuffled,
            explanation = expl, media = med, subject = subj\<rparr>, k'))"

text \<open>
  \<open>generateMultipleChoiceQuestion(type, pool)\<close> on the engine \<open>e\<close>. On an empty pool
  the country is \<open>undefined\<close> and reading its name throws. The result is \<open>None\<close> when the
  time zone fallback loop does not end.
\<close>

definition generateMultipleChoiceQuestion ::
    "host \<Rightarrow> random \<Rightarrow> nat \<Rightarrow> engine \<Rightarrow> category \<Rightarrow> country list \<Rightarrow>
     ((error + question) \<times> nat) option" where
  "generateMultipleChoiceQuestion toLocaleString rnd k e t pool =
     (let idx = floor_random rnd k (length pool); k1 = Suc k
      in if length pool \<le> idx then Some (Inl TypeError, k1)
         else
           let c = pool ! idx; d = difficulty e;
               result = (\<lambda>(q, k'). Some (Inr q, k'))
           in case t of
                Population \<Rightarrow>
                  let correct = formatPopulation toLocaleString (population c)
                  in result (make_question rnd k1 t
                       (''What is the approximate population of '' @ name c @ ''?'')
                       (Str correct) (generatePopulationOptions toLocaleString d (population c))
                       (name c @ '' has a population of approximately '' @ correct @ ''.'')
                       None (name c))
              | Area \<Rightarrow>
                  let correct = formatArea toLocaleString (area c)
                  in result (make_question rnd k1 t
                       (''What is the total land area of '' @ name c @ '' in square kilometers?'')
                       (Str correct) (generateAreaOptions toLocaleString d (area c))
                       (name c @ '' has a total area of '' @ correct @ ''.'')
                       None (name c))
              | Gdp \<Rightarrow>
                  let correct = formatGDP toLocaleString (times (population c) 15000)
                  in result (make_question rnd k1 t
                       (''What is the approximate GDP of '' @ name c @ ''?'')
                       (Str correct) (generateGDPOptions toLocaleString d (times (population c) 15000))
                       (name c @ '' has an estimated GDP of approximately '' @ correct @ ''.'')
                       None (name c))
              | Capital \<Rightarrow>
                  let correct = capital c;
                      (opts, k2) = generateCapitalOptions rnd k1 c pool
                  in result (make_question rnd k2 t
                       (''What is the capital city of '' @ name c @ ''?'')
                       correct (map Txt opts)
                       (''The capital of '' @ name c @ '' is '' @ to_text correct @ ''.'')
                       None (name c))
              | Currency \<Rightarrow>
                  let correct = first_or_unknown (currencies c);
                      (opts, k2) = generateCurrencyOptions rnd k1 c pool
                  in result (make_question rnd k2 t
                       (''What currency is used in '' @ name c @ ''?'')
                       (Str correct) (map Txt opts)
                       (name c @ '' uses '' @ correct @ ''.'')
                       None (name c))
              | Languages \<Rightarrow>
                  let correct = first_or_unknown (languages c);
                      (opts, k2) = generateLanguageOptions rnd k1 c pool
                  in result (make_question rnd k2 t
                       (''Which languages are spoken in '' @ name c @ ''?'')
                       (Str correct) (map (\<lambda>l. Txt (Str l)) opts)
                       (correct @ '' is one of the official languages spoken in '' @ name c @ ''.'')
                       None (name c))
              | Timezone \<Rightarrow>
                  let correct = first (timezones c)
                  in (case generateTimezoneOptions rnd k1 c pool of
                        None \<Rightarrow> None
                      | Some (opts, k2) \<Rightarrow>
                          result (make_question rnd k2 t
                            (''What is the time zone of '' @ name c @ ''?'')
                            correct (map Txt opts)
                            (''The time zone of '' @ name c @ '' is '' @ to_text correct @ ''.'')
                            None (name c)))
              | Flag \<Rightarrow>
                  let (opts, k2) = generateFlagOptions rnd k1 c pool
                  in result (make_question rnd k2 t
                       (''What does the flag of '' @ name c @ '' look like?'')
                       (Str (flag c)) opts
                       (''This is what the flag of '' @ name c @ '' looks like.'')
                       (Some opts) (name c)))"

text \<open>\<open>generateQuestion\<close>: a random category, then the pool of the difficulty.\<close>

definition generateQuestion ::
    "host \<Rightarrow> random \<Rightarrow> nat \<Rightarrow> engine \<Rightarrow> ((error + question) \<times> nat) option" where
  "generateQuestion toLocaleString rnd k e =
     (let t = questionTypes ! floor_random rnd k (length questionTypes)
      in case getCountriesForDifficulty e of
           Inl err \<Rightarrow> Some (Inl err, Suc k)
         | Inr pool \<Rightarrow> generateMultipleChoiceQuestion toLocaleString rnd (Suc k) e t pool)"

text \<open>
  \<open>nextQuestion\<close> returns \<open>null\<close> (\<open>Inr None\<close>) once the counter has reached the total.
  Otherwise the counter is incremented before the question is generated, so an exception
  thrown by the generation leaves the incremented counter behind.
\<close>

definition nextQuestion ::
    "host \<Rightarrow> random \<Rightarrow> nat \<Rightarrow> engine \<Rightarrow>
     ((error + question option) \<times> engine \<times> nat) option" where
  "nextQuestion toLocaleString rnd k e =
     (if questionNumber e \<ge> totalQuestions e then Some (Inr None, e, k)
      else
        let e1 = e\<lparr>questionNumber := questionNumber e + 1\<rparr>
        in case generateQuestion toLocaleString rnd k e1 of
             None \<Rightarrow> None
           | Some (Inl err, k') \<Rightarrow> Some (Inl err, e1, k')
           | Some (Inr q, k') \<Rightarrow>
               Some (Inr (Some q),
                     e1\<lparr>currentQuestion := Some q, answeredCurrentQuestion := False\<rparr>, k'))"

text \<open>
  The object returned by \<open>getStats\<close>. The quotient of the counters is a division of
  numbers: by zero it is NaN for a score of 0 and infinite otherwise.
\<close>

record stats =
  stats_score :: int
  stats_wrong :: int
  stats_streak :: int
  stats_questionNumber :: int
  stats_totalQuestions :: int
  percentage :: number

definition quotient :: "int \<Rightarrow> int \<Rightarrow> number" where
  "quotient a b =
     (if b = 0 then (if a = 0 then NaN else if 0 < a then PosInf else NegInf)
      else to_double (of_int a / of_int b))"

definition getStats :: "engine \<Rightarrow> stats" where
  "getStats e =
     \<lparr>stats_score = score e, stats_wrong = wrong e, stats_streak = streak e,
      stats_questionNumber = questionNumber e, stats_totalQuestions = totalQuestions e,
      percentage = or_zero (Math_round (times (quotient (score e) (questionNumber e)) 100))\<rparr>"

text \<open>
  A run of \<open>n\<close> calls of \<open>nextQuestion\<close> that each return a question; \<open>None\<close> when one
  of them throws, returns \<open>null\<close> or does not return.
\<close>

fun nextQuestions ::
    "host \<Rightarrow> random \<Rightarrow> nat \<Rightarrow> nat \<Rightarrow> engine \<Rightarrow> (engine \<times> nat) option" where
  "nextQuestions toLocaleString rnd k 0 e = Some (e, k)"
| "nextQuestions toLocaleString rnd k (Suc n) e =
     (case nextQuestion toLocaleString rnd k e of
        Some (Inr (Some q), e', k') \<Rightarrow> nextQuestions toLocaleString rnd k' n e'
      | _ \<Rightarrow> None)"

section \<open>Example states\<close>

definition example_question :: question where
  "example_question =
     \<lparr>qtype = Capital, prompt = ''What is the capital city of France?'',
      correctAnswer = Str ''Paris'',
      options = [Txt (Str ''Rome''), Txt (Str ''Paris''), Txt (Str ''Oslo''), Txt (Str ''Lima'')],
      explanation = ''The capital of France is Paris.'', media = None,
      subject = ''France''\<rparr>"

definition example_engine :: engine where
  "example_engine = new_engine\<lparr>questionNumber := 1, currentQuestion := Some example_question\<rparr>"

definition france :: country where
  "france =
     \<lparr>name = ''France'', capital = Str ''Paris'', population = Fin 67000000,
      area = Fin 551695, region = ''Europe'', languages = [''French''],
      currencies = [''Euro''], timezones = [''UTC+01:00''],
      flag = ''https://flagcdn.com/w320/fr.png'', flagAlt = ''Flag of France'',
      gdp = Fin 0, popularity = Fin 67000000\<rparr>"


text \<open>A country of the bulk source that has a population and nothing else.\<close>

definition bare_rest_country :: rest_country where
  "bare_rest_country =
     \<lparr>r_name_common = ''Atlantis'', r_capital = None, r_population = Some (Fin 1200),
      r_area = None, r_region = None, r_languages = None, r_currencies = None,
      r_timezones = None, r_flags = None\<rparr>"

text \<open>
  Two hosts for the examples. Both print the nearest integer in groups of three digits,
  one with commas between the groups, as a browser whose locale is en-US prints an
  integer, the other with full stops, as one whose locale is de-DE does. The examples
  apply them to integers only. The infinity sign is U+221E.
\<close>

function group3 :: "string \<Rightarrow> string \<Rightarrow> string" where
  "group3 sep s =
     (if length s \<le> 3 then s
      else group3 sep (take (length s - 3) s) @ sep @ drop (length s - 3) s)"
  by pat_completeness auto
termination
  by (relation "measure (\<lambda>(sep, s). length s)") auto

declare group3.simps [simp del]

definition infinity_sign :: string where
  "infinity_sign = [CHR 0xE2, CHR 0x88, CHR 0x9E]"

fun grouped :: "string \<Rightarrow> host" where
  "grouped sep (Fin x) =
     (if x < 0 then ''-'' else '''') @ group3 sep (digits \<lfloor>\<bar>x\<bar> + 1 / 2\<rfloor>)"
| "grouped sep PosInf = infinity_sign"
| "grouped sep NegInf = ''-'' @ infinity_sign"
| "grouped sep NaN = ''NaN''"

definition en_US :: host where
  "en_US = grouped '',''"

definition de_DE :: host where
  "de_DE = grouped ''.''"

text \<open>The sequence of draws that are all \<open>r\<close>.\<close>

definition always :: "nat \<Rightarrow> random" where
  "always r = (\<lambda>i. r)"

text \<open>A response of the primary source for France.\<close>

definition ninja_france :: ninja_country where
  "ninja_france =
     \<lparr>n_name = Some ''France'', n_capital = Some ''Paris'',
      n_population = JNumber (Fin 67000000), n_surface_area = Some (Fin 551695),
      n_region = Some ''Europe'', n_currency = CurrencyObject (Some ''Euro''), n_gdp = None,
      n_languages = LanguageString ''French, Breton'', n_timezone = None\<rparr>"

text \<open>An engine whose only loaded country is France, and questions generated from it.\<close>

definition loaded_engine :: engine where
  "loaded_engine = new_engine\<lparr>countries := [france]\<rparr>"

definition france_capital_question :: question where
  "france_capital_question =
     \<lparr>qtype = Capital, prompt = ''What is the capital city of France?'',
      correctAnswer = Str ''Paris'', options = [Txt (Str ''Paris'')],
      explanation = ''The capital of France is Paris.'', media = None, subject = ''France''\<rparr>"





text \<open>The record \<open>mapNinjaCountry\<close> builds from that response.\<close>

definition france_from_ninja :: country where
  "france_from_ninja =
     \<lparr>name = ''France'', capital = Str ''Paris'', population = Fin 67000000,
      area = Fin 551695, region = ''Europe'', languages = [''French'', ''Breton''],
      currencies = [''Euro''], timezones = [''UTC''],
      flag = ''https://flagcdn.com/w320/fr.png'', flagAlt = ''Flag of France'',
      gdp = Fin 0, popularity = Fin 67000000\<rparr>"

text \<open>The engine after loading the bare country from the bulk source.\<close>

definition atlantis_engine :: engine where
  "atlantis_engine =
     new_engine\<lparr>countries :=
       [\<lparr>name = ''Atlantis'', capital = Str ''N/A'', population = Fin 1200, area = Fin 0,
         region = ''Unknown'', languages = [], currencies = [], timezones = [], flag = [],
         flagAlt = ''Flag of Atlantis'', gdp = Fin 0, popularity = Fin 1200\<rparr>]\<rparr>"



section \<open>Scoring\<close>

lemma checkAnswer_right:
  assumes "currentQuestion e = Some q"
  shows "checkAnswer (correctAnswer q) e =
     Inr (\<lparr>isCorrect = True, result_streak = streak e + 1, result_explanation = explanation q\<rparr>,
          e\<lparr>score := score e + 1 + (if 0 < streak e + 1 \<and> 3 dvd streak e + 1 then 1 else 0),
            streak := streak e + 1, answeredCurrentQuestion := True\<rparr>)"
proof -
  have "(3 \<le> streak e + 1 \<and> 3 dvd streak e + 1) = (0 < streak e + 1 \<and> 3 dvd streak e + 1)"
    by presburger
  then show ?thesis using assms by (simp add: checkAnswer_def Let_def)
qed

lemma checkAnswer_wrong:
  assumes "currentQuestion e = Some q" and "a \<noteq> correctAnswer q"
  shows "checkAnswer a e =
     Inr (\<lparr>isCorrect = False, result_streak = 0, result_explanation = explanation q\<rparr>,
          e\<lparr>wrong := wrong e + 1, streak := 0, answeredCurrentQuestion := True\<rparr>)"
  using assms by (simp add: checkAnswer_def Let_def)

lemma checkAnswer_keeps_question:
  assumes "checkAnswer a e = Inr (r, e')"
  shows "currentQuestion e' = currentQuestion e"
  using assms by (auto simp: checkAnswer_def Let_def split: option.splits if_splits)

text \<open>
  C4. With a current question, a correct answer adds 1 to the score and 1 to the streak,
  and one more point exactly when the new streak is a positive multiple of 3; from score 0
  and streak 0, six correct answers in a row give score 8 and streak 6.
\<close>

theorem streak_bonus:
  assumes "currentQuestion e = Some q"
  shows "(\<exists>r e'. checkAnswer (correctAnswer q) e = Inr (r, e') \<and> isCorrect r \<and>
            streak e' = streak e + 1 \<and>
            score e' = score e + 1 + (if 0 < streak e' \<and> 3 dvd streak e' then 1 else 0))
       \<and> (score e = 0 \<and> streak e = 0 \<longrightarrow>
            (\<exists>e'. checkAnswers (replicate 6 (correctAnswer q)) e = Inr e' \<and>
                  score e' = 8 \<and> streak e' = 6))"
proof
  show "\<exists>r e'. checkAnswer (correctAnswer q) e = Inr (r, e') \<and> isCorrect r \<and>
            streak e' = streak e + 1 \<and>
            score e' = score e + 1 + (if 0 < streak e' \<and> 3 dvd streak e' then 1 else 0)"
    by (simp add: checkAnswer_right [OF assms])
next
  show "score e = 0 \<and> streak e = 0 \<longrightarrow>
            (\<exists>e'. checkAnswers (replicate 6 (correctAnswer q)) e = Inr e' \<and>
                  score e' = 8 \<and> streak e' = 6)"
    using assms by (simp add: numeral_eq_Suc checkAnswer_def Let_def)
qed

theorem streak_bonus_witness:
  "currentQuestion example_engine = Some example_question \<and>
   score example_engine = 0 \<and> streak example_engine = 0 \<and>
   (\<exists>e'. checkAnswers (replicate 6 (Str ''Paris'')) example_engine = Inr e' \<and>
         score e' = 8 \<and> streak e' = 6)"
proof -
  have q: "currentQuestion example_engine = Some example_question"
    by (simp add: example_engine_def)
  have z: "score example_engine = 0 \<and> streak example_engine = 0"
    by (simp add: example_engine_def new_engine_def)
  have c: "correctAnswer example_question = Str ''Paris''"
    by (simp add: example_question_def)
  show ?thesis using streak_bonus [OF q] q z c by simp
qed

text \<open>
  C5. With a current question, a submitted value different from its correct answer sets
  the streak to 0, adds exactly 1 to the wrong count and leaves the score unchanged,
  whatever the streak was.
\<close>

theorem wrong_answer_reset:
  assumes "currentQuestion e = Some q" and "a \<noteq> correctAnswer q"
  shows "\<exists>r e'. checkAnswer a e = Inr (r, e') \<and> \<not> isCorrect r \<and> streak e' = 0 \<and>
           wrong e' = wrong e + 1 \<and> score e' = score e"
  by (simp add: checkAnswer_wrong [OF assms])

theorem wrong_answer_reset_witness:
  "currentQuestion (example_engine\<lparr>streak := 5, score := 6\<rparr>) = Some example_question \<and>
   Str ''Rome'' \<noteq> correctAnswer example_question \<and>
   (\<exists>r e'. checkAnswer (Str ''Rome'') (example_engine\<lparr>streak := 5, score := 6\<rparr>) = Inr (r, e') \<and>
      \<not> isCorrect r \<and> streak e' = 0 \<and> wrong e' = 1 \<and> score e' = 6)"
proof -
  let ?e = "example_engine\<lparr>streak := 5, score := 6\<rparr>"
  have q: "currentQuestion ?e = Some example_question"
    by (simp add: example_engine_def)
  have n: "Str ''Rome'' \<noteq> correctAnswer example_question"
    by (simp add: example_question_def)
  have w: "wrong ?e = 0" "score ?e = 6"
    by (simp_all add: example_engine_def new_engine_def)
  show ?thesis using wrong_answer_reset [OF q n] q n w by simp
qed

text \<open>
  C10. With a current question, \<open>checkAnswer\<close> returns a state that differs from the one
  it was called on in at most \<open>score\<close>, \<open>wrong\<close>, \<open>streak\<close> and the answered flag:
  the difficulty, the question counter and total, the loaded countries and the current
  question are the same, for a correct and for an incorrect answer.
\<close>

theorem checkAnswer_frame:
  assumes "currentQuestion e = Some q"
  shows "\<exists>r e'. checkAnswer a e = Inr (r, e') \<and>
           e' = e\<lparr>score := score e', wrong := wrong e', streak := streak e',
                  answeredCurrentQuestion := True\<rparr> \<and>
           difficulty e' = difficulty e \<and> questionNumber e' = questionNumber e \<and>
           totalQuestions e' = totalQuestions e \<and> countries e' = countries e \<and>
           currentQuestion e' = Some q"
  using assms by (simp add: checkAnswer_def Let_def)

theorem checkAnswer_frame_witness:
  "currentQuestion example_engine = Some example_question \<and>
   (\<exists>r e'. checkAnswer (Str ''Oslo'') example_engine = Inr (r, e') \<and>
      difficulty e' = ''easy'' \<and> questionNumber e' = 1 \<and> totalQuestions e' = 10 \<and>
      countries e' = [] \<and> currentQuestion e' = Some example_question)"
proof -
  have q: "currentQuestion example_engine = Some example_question"
    by (simp add: example_engine_def)
  have f: "difficulty example_engine = ''easy''" "questionNumber example_engine = 1"
    "totalQuestions example_engine = 10" "countries example_engine = []"
    by (simp_all add: example_engine_def new_engine_def)
  from checkAnswer_frame [OF q, of "Str ''Oslo''"] obtain r e' where
    "checkAnswer (Str ''Oslo'') example_engine = Inr (r, e')"
    "difficulty e' = difficulty example_engine" "questionNumber e' = questionNumber example_engine"
    "totalQuestions e' = totalQuestions example_engine" "countries e' = countries example_engine"
    "currentQuestion e' = Some example_question"
    by blast
  with q f show ?thesis by simp
qed

section \<open>Changing the difficulty\<close>

lemma lookup_settings_known:
  "lookup_settings ''easy'' = Own \<lparr>countries_cap = 30, popularOnly = True\<rparr>"
  "lookup_settings ''medium'' = Own \<lparr>countries_cap = 100, popularOnly = False\<rparr>"
  "lookup_settings ''hard'' = Own \<lparr>countries_cap = 200, popularOnly = False\<rparr>"
  by (simp_all add: lookup_settings_def difficultySettings_def)

lemma setDifficulty_known:
  assumes "level \<in> {''easy'', ''medium'', ''hard''}"
  shows "setDifficulty level e = reset (e\<lparr>difficulty := level\<rparr>)"
  using assms by (auto simp: setDifficulty_def lookup_settings_known)

lemma setDifficulty_unknown:
  assumes "level \<notin> {''easy'', ''medium'', ''hard''}" and "level \<notin> set object_prototype_keys"
  shows "setDifficulty level e = e"
  using assms by (simp add: setDifficulty_def lookup_settings_def difficultySettings_def)

text \<open>
  C6. \<open>setDifficulty\<close> with a level that is none of easy, medium and hard should leave
  the state as it is. For the level \<open>constructor\<close>, which the settings object inherits
  from \<open>Object.prototype\<close>, the code stores the level and resets an ongoing session.
\<close>

theorem setDifficulty_inherited_key:
  "''constructor'' \<notin> {''easy'', ''medium'', ''hard''} \<and>
   setDifficulty ''constructor'' (example_engine\<lparr>score := 4, streak := 2\<rparr>) =
     new_engine\<lparr>difficulty := ''constructor''\<rparr> \<and>
   setDifficulty ''constructor'' (example_engine\<lparr>score := 4, streak := 2\<rparr>) \<noteq>
     example_engine\<lparr>score := 4, streak := 2\<rparr>"
proof -
  have l: "lookup_settings ''constructor'' = Inherited"
    by (simp add: lookup_settings_def difficultySettings_def object_prototype_keys_def)
  have s: "setDifficulty ''constructor'' (example_engine\<lparr>score := 4, streak := 2\<rparr>) =
     new_engine\<lparr>difficulty := ''constructor''\<rparr>"
    by (simp add: setDifficulty_def l reset_def example_engine_def new_engine_def)
  have "new_engine\<lparr>difficulty := ''constructor''\<rparr> \<noteq> example_engine\<lparr>score := 4, streak := 2\<rparr>"
  proof
    assume "new_engine\<lparr>difficulty := ''constructor''\<rparr> = example_engine\<lparr>score := 4, streak := 2\<rparr>"
    then have "score (new_engine\<lparr>difficulty := ''constructor''\<rparr>) =
        score (example_engine\<lparr>score := 4, streak := 2\<rparr>)"
      by (rule arg_cong)
    then show False by (simp add: new_engine_def)
  qed
  with s show ?thesis by simp
qed

section \<open>Difficulty pool\<close>

text \<open>
  C8. For each of the three difficulty levels the pool is a prefix of the loaded
  (popularity-sorted) list, no longer than the level's cap (30 within the first 50 for
  easy, 100 for medium, 200 for hard), and the whole list when that is no longer than
  the cap. With 120 countries, easy gives at most 30 records from the first 50 and hard
  gives all 120.
\<close>

theorem pool_is_capped_prefix:
  assumes "difficulty e \<in> {''easy'', ''medium'', ''hard''}"
  defines "cap \<equiv> (if difficulty e = ''easy'' then 30 else if difficulty e = ''medium'' then 100 else 200)"
  shows "\<exists>pool. getCountriesForDifficulty e = Inr pool \<and>
           prefix pool (countries e) \<and> length pool \<le> cap \<and>
           (length (countries e) \<le> cap \<longrightarrow> pool = countries e) \<and>
           (difficulty e = ''easy'' \<longrightarrow> prefix pool (take 50 (countries e))) \<and>
           (length (countries e) = 120 \<longrightarrow>
              (difficulty e = ''easy'' \<longrightarrow> length pool \<le> 30 \<and> prefix pool (take 50 (countries e))) \<and>
              (difficulty e = ''hard'' \<longrightarrow> pool = countries e))"
proof -
  have t: "prefix (take n xs) xs" for n and xs :: "country list"
    by (simp add: take_is_prefix)
  have t2: "prefix (take 30 xs) (take 50 xs)" for xs :: "country list"
  proof -
    have "take 30 xs = take 30 (take 50 xs)" by simp
    then show ?thesis by (metis take_is_prefix)
  qed
  show ?thesis
    using assms t t2
    by (auto simp: getCountriesForDifficulty_def lookup_settings_known Let_def)
qed

theorem pool_is_capped_prefix_witness:
  "difficulty (new_engine\<lparr>countries := replicate 120 france\<rparr>) \<in> {''easy'', ''medium'', ''hard''} \<and>
   getCountriesForDifficulty (new_engine\<lparr>countries := replicate 120 france\<rparr>) = Inr (replicate 30 france)"
proof -
  let ?e = "new_engine\<lparr>countries := replicate 120 france\<rparr>"
  have d: "difficulty ?e \<in> {''easy'', ''medium'', ''hard''}"
    by (simp add: new_engine_def)
  have "getCountriesForDifficulty ?e = Inr (replicate 30 france)"
    by (simp add: getCountriesForDifficulty_def lookup_settings_known new_engine_def)
  with d pool_is_capped_prefix [OF d] show ?thesis by simp
qed

section \<open>Rounding to a double is exact on representable values\<close>

lemma pow2_powi: "pow2 k = 2 powi k"
  by (simp add: pow2_def power_int_def field_simps)

lemma pow2_pos: "0 < pow2 k"
  by (simp add: pow2_powi)

lemma pow2_add: "pow2 (i + j) = pow2 i * pow2 j"
  by (simp add: pow2_powi power_int_add)

lemma pow2_mono: "i \<le> j \<Longrightarrow> pow2 i \<le> pow2 j"
  by (simp add: pow2_powi power_int_increasing)

lemma pow2_nat: "pow2 (int n) = 2 ^ n"
  by (simp add: pow2_def)

lemma bit_length_bounds:
  "0 < n \<Longrightarrow> 2 ^ (bit_length n - 1) \<le> n \<and> n < 2 ^ bit_length n"
proof (induction n rule: bit_length.induct)
  case (1 n)
  show ?case
  proof (cases "n = 1")
    case True
    then show ?thesis by (simp add: bit_length.simps)
  next
    case False
    with 1 have h: "0 < n div 2" by simp
    with 1 have ih: "2 ^ (bit_length (n div 2) - 1) \<le> n div 2" "n div 2 < 2 ^ bit_length (n div 2)"
      by simp_all
    have pos: "0 < bit_length (n div 2)" using h by (subst bit_length.simps) simp
    have b: "bit_length n = Suc (bit_length (n div 2))" using 1 by (subst bit_length.simps) simp
    have "2 * 2 ^ (bit_length (n div 2) - 1) \<le> n" using ih(1) by linarith
    moreover have "2 * 2 ^ (bit_length (n div 2) - 1) = (2::int) ^ bit_length (n div 2)"
      using pos by (cases "bit_length (n div 2)") simp_all
    moreover have "n < 2 * 2 ^ bit_length (n div 2)" using ih(2) by linarith
    ultimately show ?thesis by (simp add: b)
  qed
qed

lemma floor_log2_le:
  assumes "0 < a"
  shows "pow2 (floor_log2 a) \<le> a"
proof -
  obtain p q where pq: "quotient_of a = (p, q)" by (cases "quotient_of a")
  have q: "0 < q" using pq by (rule quotient_of_denom_pos)
  have a: "a = of_int p / of_int q" using pq by (rule quotient_of_div)
  have p: "0 < p" using assms q a by (simp add: zero_less_divide_iff)
  define k where "k = int (bit_length p) - int (bit_length q)"
  have fl: "floor_log2 a = (if pow2 k \<le> a then k else k - 1)"
    by (simp add: floor_log2_def pq k_def Let_def)
  have bp: "0 < bit_length p" using p by (subst bit_length.simps) simp
  have "(2::int) ^ (bit_length p - 1) \<le> p" using bit_length_bounds [OF p] by simp
  then have 1: "(2::rat) ^ (bit_length p - 1) \<le> of_int p"
    by (metis of_int_le_iff of_int_numeral of_int_power)
  have "q < 2 ^ bit_length q" using bit_length_bounds [OF q] by simp
  then have 2: "of_int q \<le> (2::rat) ^ bit_length q"
    by (metis less_imp_le of_int_le_iff of_int_numeral of_int_power)
  have "k - 1 = int (bit_length p - 1) + (- int (bit_length q))"
    using bp by (simp add: k_def)
  then have "pow2 (k - 1) = pow2 (int (bit_length p - 1)) * pow2 (- int (bit_length q))"
    by (simp only: pow2_add)
  also have "\<dots> = 2 ^ (bit_length p - 1) / 2 ^ bit_length q"
    by (simp add: pow2_def)
  also have "\<dots> \<le> of_int p / of_int q"
    using 1 2 p q by (simp add: frac_le)
  finally have "pow2 (k - 1) \<le> a" by (simp add: a)
  then show ?thesis by (simp add: fl)
qed

lemma round_half_even_int: "round_half_even (of_int n) = n"
  by (simp add: round_half_even_def)

lemma to_double_exact:
  assumes x: "x = of_int m * pow2 j" and m: "\<bar>m\<bar> < 2 ^ 53" and j: "- 1074 \<le> j"
    and big: "\<bar>x\<bar> < 2 ^ 1024"
  shows "to_double x = Fin x"
proof (cases "x = 0")
  case True
  then show ?thesis by (simp add: to_double_def)
next
  case False
  define a where "a = \<bar>x\<bar>"
  have a: "a = of_int \<bar>m\<bar> * pow2 j" using pow2_pos [of j] by (simp add: a_def x abs_mult)
  have apos: "0 < a" using False by (simp add: a_def)
  define e where "e = max (floor_log2 a - 52) (- 1074)"
  have "pow2 (floor_log2 a) \<le> a" using apos by (rule floor_log2_le)
  also have "a < 2 ^ 53 * pow2 j"
  proof -
    have "(of_int \<bar>m\<bar> :: rat) < 2 ^ 53" using m
      by (metis of_int_less_iff of_int_numeral of_int_power)
    then show ?thesis using pow2_pos [of j] by (simp add: a)
  qed
  also have "\<dots> = pow2 (53 + j)"
  proof -
    have "pow2 53 = 2 ^ 53" by (simp add: pow2_def)
    then show ?thesis by (simp only: pow2_add)
  qed
  finally have "pow2 (floor_log2 a) < pow2 (53 + j)" .
  then have "floor_log2 a < 53 + j"
    by (metis not_le pow2_mono)
  then have ej: "e \<le> j" using j by (simp add: e_def)
  define d where "d = nat (j - e)"
  have "pow2 j = pow2 (int d) * pow2 e" using ej by (simp add: d_def pow2_add [symmetric])
  then have "a / pow2 e = of_int \<bar>m\<bar> * 2 ^ d" using pow2_pos [of e] by (simp add: a pow2_nat)
  also have "\<dots> = of_int (\<bar>m\<bar> * 2 ^ d)" by simp
  finally have q: "a / pow2 e = of_int (\<bar>m\<bar> * 2 ^ d)" .
  have r: "round_half_even (a / pow2 e) = \<bar>m\<bar> * 2 ^ d"
    by (simp only: q round_half_even_int)
  have "rat_of_int (round_half_even (a / pow2 e)) = of_int (\<bar>m\<bar> * 2 ^ d)"
    by (subst r) (rule refl)
  also have "\<dots> = a / pow2 e" by (rule q [symmetric])
  finally have "of_int (round_half_even (a / pow2 e)) * pow2 e = a / pow2 e * pow2 e"
    by (rule arg_cong)
  also have "\<dots> = a" using pow2_pos [of e] by simp
  finally have y: "of_int (round_half_even (a / pow2 e)) * pow2 e = a" .
  have "to_double x = Fin (if 0 < x then a else - a)"
    using False big y by (simp add: to_double_def Let_def a_def [symmetric] e_def [symmetric])
  then show ?thesis by (simp add: a_def)
qed

lemma to_double_int:
  assumes "\<bar>n\<bar> < 2 ^ 53"
  shows "to_double (of_int n) = Fin (of_int n)"
proof (rule to_double_exact [where m = n and j = 0])
  show "rat_of_int n = of_int n * pow2 0" by (simp add: pow2_def)
  show "\<bar>n\<bar> < 2 ^ 53" by fact
  show "- 1074 \<le> (0::int)" by simp
  have "\<bar>rat_of_int n\<bar> < 2 ^ 53" using assms
    by (metis of_int_abs of_int_less_iff of_int_numeral of_int_power)
  also have "(2::rat) ^ 53 < 2 ^ 1024" by simp
  finally show "\<bar>rat_of_int n\<bar> < 2 ^ 1024" .
qed

section \<open>The option generators\<close>

lemma floor_random_less: "0 < n \<Longrightarrow> floor_random rnd k n < n"
  by (simp add: floor_random_def)

lemma shuffle_from_mset:
  "i < length xs \<Longrightarrow> mset (fst (shuffle_from rnd k i xs)) = mset xs"
proof (induction i arbitrary: k xs)
  case 0
  then show ?case by simp
next
  case (Suc i)
  let ?j = "floor_random rnd k (Suc i + 1)"
  have j: "?j < length xs" using floor_random_less [of "Suc i + 1" rnd k] Suc.prems by simp
  let ?ys = "xs[Suc i := xs ! ?j, ?j := xs ! Suc i]"
  have "mset ?ys = mset xs" using mset_swap [OF j Suc.prems] .
  moreover have "i < length ?ys" using Suc.prems by simp
  ultimately show ?case using Suc.IH [of ?ys "Suc k"] by (simp add: Let_def)
qed

lemma shuffleArray_mset: "mset (fst (shuffleArray rnd k xs)) = mset xs"
proof (cases xs)
  case Nil
  then show ?thesis by (simp add: shuffleArray_def)
next
  case (Cons a list)
  then show ?thesis by (simp add: shuffleArray_def shuffle_from_mset)
qed

lemma make_question_options:
  "mset (options (fst (make_question rnd k t q c opts ex med s))) = mset opts"
proof (cases "shuffleArray rnd k opts")
  case (Pair xs k')
  then show ?thesis using shuffleArray_mset [of rnd k opts] by (simp add: make_question_def)
qed

lemma make_question_fields:
  "correctAnswer (fst (make_question rnd k t q c opts ex med s)) = c"
  "qtype (fst (make_question rnd k t q c opts ex med s)) = t"
  by (simp_all add: make_question_def split: prod.splits)

lemma pick_distinct_props:
  "distinct opts \<Longrightarrow> length opts \<le> 4 \<Longrightarrow>
   distinct (fst (pick_distinct rnd k opts others)) \<and>
   prefix opts (fst (pick_distinct rnd k opts others)) \<and>
   set (fst (pick_distinct rnd k opts others)) \<subseteq> set opts \<union> set others \<and>
   length (fst (pick_distinct rnd k opts others)) =
     min 4 (length opts + card (set others - set opts))"
proof (induction rnd k opts others rule: pick_distinct.induct)
  case (1 rnd k opts others)
  show ?case
  proof (cases "length opts < 4 \<and> 0 < length others")
    case False
    then show ?thesis using "1.prems"
      by (subst (1 2 3 4) pick_distinct.simps) auto
  next
    case True
    define idx where "idx = floor_random rnd k (length others)"
    define x where "x = others ! idx"
    define rest where "rest = take idx others @ drop (Suc idx) others"
    define opts' where "opts' = (if x \<in> set opts then opts else opts @ [x])"
    have idx: "idx < length others" using True by (simp add: idx_def floor_random_less)
    have unf: "pick_distinct rnd k opts others = pick_distinct rnd (Suc k) opts' rest"
      using True by (subst pick_distinct.simps) (simp add: Let_def idx_def x_def rest_def opts'_def)
    have others: "others = take idx others @ x # drop (Suc idx) others"
      using idx by (simp add: x_def id_take_nth_drop)
    have so: "set others = insert x (set rest)"
      by (subst others) (auto simp: rest_def)
    have d': "distinct opts'" using "1.prems" by (simp add: opts'_def)
    have l': "length opts' \<le> 4" using "1.prems" True by (simp add: opts'_def)
    have ih: "distinct (fst (pick_distinct rnd (Suc k) opts' rest)) \<and>
        prefix opts' (fst (pick_distinct rnd (Suc k) opts' rest)) \<and>
        set (fst (pick_distinct rnd (Suc k) opts' rest)) \<subseteq> set opts' \<union> set rest \<and>
        length (fst (pick_distinct rnd (Suc k) opts' rest)) =
          min 4 (length opts' + card (set rest - set opts'))"
      using "1.IH" [OF True idx_def x_def rest_def d' [unfolded opts'_def] l' [unfolded opts'_def]]
      by (simp add: opts'_def)
    have p: "prefix opts opts'" by (simp add: opts'_def)
    have s: "set opts' \<union> set rest \<subseteq> set opts \<union> set others"
      by (auto simp: opts'_def so)
    have c: "length opts' + card (set rest - set opts') = length opts + card (set others - set opts)"
    proof (cases "x \<in> set opts")
      case True
      then have "set rest - set opts' = set others - set opts" by (auto simp: opts'_def so)
      then show ?thesis using True by (simp add: opts'_def)
    next
      case False
      then have e: "set rest - set opts' = (set others - set opts) - {x}" by (auto simp: opts'_def so)
      have l: "length opts' = Suc (length opts)" using False by (simp add: opts'_def)
      have "x \<in> set others - set opts" using False by (simp add: so)
      then have "card (set others - set opts) = Suc (card ((set others - set opts) - {x}))"
        by (metis List.finite_set card.remove finite_Diff)
      then show ?thesis by (simp only: e l)
    qed
    show ?thesis using ih p s c unf by (auto intro: prefix_order.trans)
  qed
qed


lemma make_question_sel:
  assumes "make_question rnd k t qu c opts ex med s = (q, k')"
  shows "mset (options q) = mset opts" "correctAnswer q = c" "qtype q = t" "subject q = s"
    "media q = med"
proof -
  have q: "q = fst (make_question rnd k t qu c opts ex med s)" using assms by simp
  show "mset (options q) = mset opts" unfolding q by (rule make_question_options)
  show "correctAnswer q = c" "qtype q = t" "subject q = s" "media q = med"
    unfolding q by (simp_all add: make_question_def split: prod.splits)
qed

lemma count_list_distinct:
  assumes "distinct xs" and "x \<in> set xs"
  shows "count_list xs x = 1"
  using assms by (induction xs) auto

lemma mset_eq_distinct: "mset xs = mset ys \<Longrightarrow> distinct xs = distinct ys"
  by (rule mset_eq_imp_distinct_iff)

lemma set_unique: "set (unique xs) = set xs"
  by (simp add: unique_def)

lemma card_lower:
  assumes "distinct ys" and "set ys \<subseteq> A" and "finite A" and "finite B"
  shows "length ys - card B \<le> card (A - B)"
proof -
  have "length ys = card (set ys)" using assms(1) by (simp add: distinct_card)
  also have "\<dots> \<le> card A" using assms(2,3) by (rule card_mono [rotated])
  finally have "length ys - card B \<le> card A - card B" by simp
  also have "\<dots> \<le> card (A - B)" using assms(4) by (rule diff_card_le_card_Diff)
  finally show ?thesis .
qed

lemma distinct_commonTimezones: "distinct commonTimezones"
  by (simp add: commonTimezones_def)

lemma distinct_common_languages: "distinct common_languages"
  by (simp add: common_languages_def)

lemma timezone_fallback_full:
  "4 \<le> length opts \<Longrightarrow> timezone_fallback rnd k opts = Some (opts, k)"
  by (subst timezone_fallback.simps) simp

lemma pick_distinct_four:
  assumes "distinct opts" and "length opts \<le> 4" and "distinct ys" and "set ys \<subseteq> set others"
    and "4 \<le> length opts + (length ys - length opts)"
  shows "length (fst (pick_distinct rnd k opts others)) = 4"
proof -
  have "length ys - card (set opts) \<le> card (set others - set opts)"
    using assms(3,4) by (intro card_lower) simp_all
  moreover have "card (set opts) = length opts" using assms(1) by (simp add: distinct_card)
  ultimately have "4 \<le> length opts + card (set others - set opts)" using assms(5) by simp
  then show ?thesis using pick_distinct_props [OF assms(1,2), of rnd k others] by simp
qed

lemma generateTimezoneOptions_props:
  "\<exists>opts k'. generateTimezoneOptions rnd k c pool = Some (opts, k') \<and> length opts = 4 \<and>
      distinct opts \<and> first (timezones c) \<in> set opts"
proof -
  define others where "others = map Str (unique (concat (map timezones
      (filter (\<lambda>x. name x \<noteq> name c \<and> 0 < length (timezones x)) pool)) @ commonTimezones))"
  obtain opts k' where p: "pick_distinct rnd k [first (timezones c)] others = (opts, k')"
    by (cases "pick_distinct rnd k [first (timezones c)] others")
  have d: "distinct (map Str commonTimezones)"
    using distinct_commonTimezones by (simp add: distinct_map inj_on_def)
  have s: "set (map Str commonTimezones) \<subseteq> set others"
    by (auto simp: others_def set_unique)
  have "length (fst (pick_distinct rnd k [first (timezones c)] others)) = 4"
    using d s by (rule pick_distinct_four [rotated 2]) (simp_all add: commonTimezones_def)
  then have l: "length opts = 4" using p by simp
  have "distinct opts" "prefix [first (timezones c)] opts"
    using pick_distinct_props [of "[first (timezones c)]" rnd k others] p by simp_all
  then have "distinct opts" "first (timezones c) \<in> set opts"
    by (auto simp: prefix_def)
  moreover have "generateTimezoneOptions rnd k c pool = Some (opts, k')"
    unfolding generateTimezoneOptions_def Let_def others_def [symmetric] p
    using l by (simp add: timezone_fallback_full)
  ultimately show ?thesis using l by blast
qed

lemma pad_common_full: "4 \<le> length opts \<Longrightarrow> pad_common correct opts ls = opts"
  by (cases ls) simp_all

lemma generateLanguageOptions_props:
  assumes "generateLanguageOptions rnd k c pool = (opts, k')"
  shows "length opts = 4" "distinct opts"
    "first_or_unknown (languages c) \<noteq> ''Unknown'' \<Longrightarrow> first_or_unknown (languages c) \<in> set opts"
proof -
  define correct where "correct = first_or_unknown (languages c)"
  define options0 where "options0 = (if correct \<noteq> ''Unknown'' then [correct] else [])"
  define languagePool where "languagePool = filter (\<lambda>l. l \<noteq> correct)
     (unique (filter (\<lambda>l. l \<noteq> [] \<and> l \<noteq> ''Unknown'')
        (concat (map languages (filter (\<lambda>x. name x \<noteq> name c \<and> 0 < length (languages x)) pool)))
       @ common_languages))"
  obtain options1 k1 where p: "pick_distinct rnd k options0 languagePool = (options1, k1)"
    by (cases "pick_distinct rnd k options0 languagePool")
  define options2 where "options2 = pad_common correct options1 common_languages"
  have res: "opts = (if correct = ''Unknown'' \<and> 0 < length options2 \<and> ''English'' \<notin> set options2
                      then options2[0 := ''English''] else options2)" "k' = k1"
    using assms
    unfolding generateLanguageOptions_def Let_def correct_def [symmetric]
        options0_def [symmetric] languagePool_def [symmetric] p prod.case options2_def [symmetric]
    by simp_all
  define ys where "ys = filter (\<lambda>l. l \<noteq> correct) common_languages"
  have dy: "distinct ys" using distinct_common_languages by (simp add: ys_def)
  have sy: "set ys \<subseteq> set languagePool" by (auto simp: ys_def languagePool_def set_unique)
  have "length common_languages = 16" by (simp add: common_languages_def)
  moreover have "length ys + length (filter (\<lambda>l. \<not> l \<noteq> correct) common_languages) = length common_languages"
    unfolding ys_def by (rule sum_length_filter_compl)
  moreover have "length (filter (\<lambda>l. \<not> l \<noteq> correct) common_languages) \<le> 1"
  proof -
    have "card ({correct} \<inter> set common_languages) \<le> card {correct}"
      by (intro card_mono) simp_all
    then show ?thesis using distinct_common_languages by (simp add: distinct_length_filter)
  qed
  ultimately have ly: "15 \<le> length ys" by simp
  have d0: "distinct options0" "length options0 \<le> 4" by (simp_all add: options0_def)
  have "length (fst (pick_distinct rnd k options0 languagePool)) = 4"
    using d0 dy sy by (rule pick_distinct_four) (use ly d0 in \<open>simp add: options0_def\<close>)
  then have l1: "length options1 = 4" using p by simp
  have d1: "distinct options1" and p1: "prefix options0 options1"
    using pick_distinct_props [OF d0, of rnd k languagePool] p by simp_all
  have o2: "options2 = options1" using l1 by (simp add: options2_def pad_common_full)
  show "length opts = 4" using l1 by (simp add: res o2)
  show "distinct opts" using d1 by (simp add: res o2 distinct_list_update)
  show "first_or_unknown (languages c) \<in> set opts" if "first_or_unknown (languages c) \<noteq> ''Unknown''"
  proof -
    have "correct \<noteq> ''Unknown''" using that by (simp add: correct_def)
    then have "options0 = [correct]" "opts = options1" by (simp_all add: options0_def res o2)
    then show ?thesis using p1 by (auto simp: prefix_def correct_def)
  qed
qed


lemma pick_any_props:
  "length opts \<le> 4 \<Longrightarrow>
   prefix opts (fst (pick_any rnd k opts others)) \<and>
   length (fst (pick_any rnd k opts others)) = min 4 (length opts + length others)"
proof (induction rnd k opts others rule: pick_any.induct)
  case (1 rnd k opts others)
  show ?case
  proof (cases "length opts < 4 \<and> 0 < length others")
    case False
    then show ?thesis using "1.prems"
      by (subst (1 2) pick_any.simps) auto
  next
    case True
    define idx where "idx = floor_random rnd k (length others)"
    define rest where "rest = take idx others @ drop (Suc idx) others"
    have idx: "idx < length others" using True by (simp add: idx_def floor_random_less)
    have unf: "pick_any rnd k opts others = pick_any rnd (Suc k) (opts @ [others ! idx]) rest"
      using True by (subst pick_any.simps) (simp add: Let_def idx_def rest_def)
    have l: "length (opts @ [others ! idx]) \<le> 4" using True by simp
    have r: "Suc (length rest) = length others" using idx by (simp add: rest_def)
    have ih: "prefix (opts @ [others ! idx]) (fst (pick_any rnd (Suc k) (opts @ [others ! idx]) rest)) \<and>
        length (fst (pick_any rnd (Suc k) (opts @ [others ! idx]) rest)) =
          min 4 (length (opts @ [others ! idx]) + length rest)"
      using "1.IH" [OF True idx_def rest_def l] .
    have "prefix opts (opts @ [others ! idx])" by simp
    with ih have "prefix opts (fst (pick_any rnd (Suc k) (opts @ [others ! idx]) rest))"
      by (blast intro: prefix_order.trans)
    moreover have "length (opts @ [others ! idx]) + length rest = length opts + length others"
      using r by simp
    ultimately show ?thesis using ih unf by simp
  qed
qed

lemma prefix_single: "prefix [x] ys \<Longrightarrow> x \<in> set ys \<and> 1 \<le> length ys"
  by (auto simp: prefix_def)

lemma pool_index: "pool \<noteq> [] \<Longrightarrow> \<not> length pool \<le> floor_random rnd k (length pool)"
  using floor_random_less [of "length pool" rnd k] by simp

lemma gen_empty: "generateMultipleChoiceQuestion h rnd k e t [] = Some (Inl TypeError, Suc k)"
  by (simp add: generateMultipleChoiceQuestion_def floor_random_def)

lemma length_numeric:
  "length (generatePopulationOptions h d n) = 4" "length (generateAreaOptions h d n) = 4"
  "length (generateGDPOptions h d n) = 4"
  by (simp_all add: generatePopulationOptions_def generateAreaOptions_def generateGDPOptions_def
      multipliers_def)

lemma head_numeric:
  "Txt (Str (formatPopulation h n)) \<in> set (generatePopulationOptions h d n)"
  "Txt (Str (formatArea h n)) \<in> set (generateAreaOptions h d n)"
  "Txt (Str (formatGDP h n)) \<in> set (generateGDPOptions h d n)"
  by (simp_all add: generatePopulationOptions_def generateAreaOptions_def generateGDPOptions_def)

lemma mset_eq_mem: "mset xs = mset ys \<Longrightarrow> (x \<in> set xs) = (x \<in> set ys)"
  by (metis set_mset_mset)

lemma mset_eq_len: "mset xs = mset ys \<Longrightarrow> length xs = length ys"
  by (rule mset_eq_length)

lemma gen_Population:
  assumes "pool \<noteq> []"
  shows "\<exists>q k'. generateMultipleChoiceQuestion h rnd k e Population pool = Some (Inr q, k') \<and>
     length (options q) = 4 \<and> Txt (correctAnswer q) \<in> set (options q)"
proof -
  define c where "c = pool ! floor_random rnd k (length pool)"
  obtain q k' where m: "make_question rnd (Suc k) Population
       (''What is the approximate population of '' @ name c @ ''?'')
       (Str (formatPopulation h (population c)))
       (generatePopulationOptions h (difficulty e) (population c))
       (name c @ '' has a population of approximately '' @ formatPopulation h (population c) @ ''.'')
       None (name c) = (q, k')"
    by (rule prod.exhaust)
  have "generateMultipleChoiceQuestion h rnd k e Population pool = Some (Inr q, k')"
    unfolding generateMultipleChoiceQuestion_def Let_def c_def [symmetric]
    using pool_index [OF assms] m by simp
  moreover have "length (options q) = 4"
    using mset_eq_len [OF make_question_sel(1) [OF m]] by (simp add: length_numeric)
  moreover have "Txt (correctAnswer q) \<in> set (options q)"
    using mset_eq_mem [OF make_question_sel(1) [OF m]] make_question_sel(2) [OF m]
    by (simp add: head_numeric)
  ultimately show ?thesis by blast
qed


lemma gen_Area:
  assumes "pool \<noteq> []"
  shows "\<exists>q k'. generateMultipleChoiceQuestion h rnd k e Area pool = Some (Inr q, k') \<and>
     length (options q) = 4 \<and> Txt (correctAnswer q) \<in> set (options q)"
proof -
  define c where "c = pool ! floor_random rnd k (length pool)"
  obtain q k' where m: "make_question rnd (Suc k) Area
       (''What is the total land area of '' @ name c @ '' in square kilometers?'')
       (Str (formatArea h (area c)))
       (generateAreaOptions h (difficulty e) (area c))
       (name c @ '' has a total area of '' @ formatArea h (area c) @ ''.'')
       None (name c) = (q, k')"
    by (rule prod.exhaust)
  have "generateMultipleChoiceQuestion h rnd k e Area pool = Some (Inr q, k')"
    unfolding generateMultipleChoiceQuestion_def Let_def c_def [symmetric]
    using pool_index [OF assms] m by simp
  moreover have "length (options q) = 4"
    using mset_eq_len [OF make_question_sel(1) [OF m]] by (simp add: length_numeric)
  moreover have "Txt (correctAnswer q) \<in> set (options q)"
    using mset_eq_mem [OF make_question_sel(1) [OF m]] make_question_sel(2) [OF m]
    by (simp add: head_numeric)
  ultimately show ?thesis by blast
qed

lemma gen_Gdp:
  assumes "pool \<noteq> []"
  shows "\<exists>q k'. generateMultipleChoiceQuestion h rnd k e Gdp pool = Some (Inr q, k') \<and>
     length (options q) = 4 \<and> Txt (correctAnswer q) \<in> set (options q)"
proof -
  define c where "c = pool ! floor_random rnd k (length pool)"
  obtain q k' where m: "make_question rnd (Suc k) Gdp
       (''What is the approximate GDP of '' @ name c @ ''?'')
       (Str (formatGDP h (times (population c) 15000)))
       (generateGDPOptions h (difficulty e) (times (population c) 15000))
       (name c @ '' has an estimated GDP of approximately '' @
          formatGDP h (times (population c) 15000) @ ''.'')
       None (name c) = (q, k')"
    by (rule prod.exhaust)
  have "generateMultipleChoiceQuestion h rnd k e Gdp pool = Some (Inr q, k')"
    unfolding generateMultipleChoiceQuestion_def Let_def c_def [symmetric]
    using pool_index [OF assms] m by simp
  moreover have "length (options q) = 4"
    using mset_eq_len [OF make_question_sel(1) [OF m]] by (simp add: length_numeric)
  moreover have "Txt (correctAnswer q) \<in> set (options q)"
    using mset_eq_mem [OF make_question_sel(1) [OF m]] make_question_sel(2) [OF m]
    by (simp add: head_numeric)
  ultimately show ?thesis by blast
qed

lemma distinct_Txt: "distinct (map Txt xs) = distinct xs"
  by (simp add: distinct_map inj_on_def)

lemma gen_Capital:
  assumes "pool \<noteq> []"
  shows "\<exists>q k'. generateMultipleChoiceQuestion h rnd k e Capital pool = Some (Inr q, k') \<and>
     1 \<le> length (options q) \<and> length (options q) \<le> 4 \<and> distinct (options q) \<and>
     count_list (options q) (Txt (correctAnswer q)) = 1"
proof -
  define c where "c = pool ! floor_random rnd k (length pool)"
  obtain opts k2 where g: "generateCapitalOptions rnd (Suc k) c pool = (opts, k2)"
    by (rule prod.exhaust)
  obtain q k' where m: "make_question rnd k2 Capital
       (''What is the capital city of '' @ name c @ ''?'')
       (capital c) (map Txt opts)
       (''The capital of '' @ name c @ '' is '' @ to_text (capital c) @ ''.'')
       None (name c) = (q, k')"
    by (rule prod.exhaust)
  have "generateMultipleChoiceQuestion h rnd k e Capital pool = Some (Inr q, k')"
    unfolding generateMultipleChoiceQuestion_def Let_def c_def [symmetric] g prod.case
    using pool_index [OF assms] m by simp
  moreover
  define others where "others = map capital (filter (\<lambda>x. name x \<noteq> name c \<and> capital x \<noteq> Str ''N/A'') pool)"
  have o: "opts = fst (pick_distinct rnd (Suc k) [capital c] others)"
    using g by (simp add: generateCapitalOptions_def others_def)
  have p: "distinct opts" "prefix [capital c] opts" "length opts \<le> 4"
    using pick_distinct_props [of "[capital c]" rnd "Suc k" others] by (simp_all add: o)
  have ms: "mset (options q) = mset (map Txt opts)" by (rule make_question_sel(1) [OF m])
  have l: "1 \<le> length (options q)" "length (options q) \<le> 4"
    using mset_eq_len [OF ms] prefix_single [OF p(2)] p(3) by simp_all
  have d: "distinct (options q)" using mset_eq_distinct [OF ms] p(1) by (simp add: distinct_Txt)
  have "Txt (capital c) \<in> set (options q)"
    using mset_eq_mem [OF ms, of "Txt (capital c)"] prefix_single [OF p(2)] by simp
  then have "count_list (options q) (Txt (correctAnswer q)) = 1"
    using d by (simp add: count_list_distinct make_question_sel(2) [OF m])
  ultimately show ?thesis using l d by blast
qed

lemma first_of_known:
  "first_or_unknown xs \<noteq> ''Unknown'' \<Longrightarrow> first xs = Str (first_or_unknown xs)"
  by (cases xs) (auto split: if_splits)

lemma gen_Currency:
  assumes "pool \<noteq> []"
  shows "\<exists>q k'. generateMultipleChoiceQuestion h rnd k e Currency pool = Some (Inr q, k') \<and>
     1 \<le> length (options q) \<and> length (options q) \<le> 4 \<and> distinct (options q) \<and>
     (correctAnswer q \<noteq> Str ''Unknown'' \<longrightarrow> count_list (options q) (Txt (correctAnswer q)) = 1)"
proof -
  define c where "c = pool ! floor_random rnd k (length pool)"
  obtain opts k2 where g: "generateCurrencyOptions rnd (Suc k) c pool = (opts, k2)"
    by (rule prod.exhaust)
  obtain q k' where m: "make_question rnd k2 Currency
       (''What currency is used in '' @ name c @ ''?'')
       (Str (first_or_unknown (currencies c))) (map Txt opts)
       (name c @ '' uses '' @ first_or_unknown (currencies c) @ ''.'')
       None (name c) = (q, k')"
    by (rule prod.exhaust)
  have "generateMultipleChoiceQuestion h rnd k e Currency pool = Some (Inr q, k')"
    unfolding generateMultipleChoiceQuestion_def Let_def c_def [symmetric] g prod.case
    using pool_index [OF assms] m by simp
  moreover
  define others where "others = map Str (concat (map currencies
      (filter (\<lambda>x. name x \<noteq> name c \<and> 0 < length (currencies x)) pool)))"
  have o: "opts = fst (pick_distinct rnd (Suc k) [first (currencies c)] others)"
    using g unfolding generateCurrencyOptions_def Let_def others_def [symmetric] by simp
  have p: "distinct opts" "prefix [first (currencies c)] opts" "length opts \<le> 4"
    using pick_distinct_props [of "[first (currencies c)]" rnd "Suc k" others] by (simp_all add: o)
  have ms: "mset (options q) = mset (map Txt opts)" by (rule make_question_sel(1) [OF m])
  have l: "1 \<le> length (options q)" "length (options q) \<le> 4"
    using mset_eq_len [OF ms] prefix_single [OF p(2)] p(3) by simp_all
  have d: "distinct (options q)" using mset_eq_distinct [OF ms] p(1) by (simp add: distinct_Txt)
  have ca: "correctAnswer q = Str (first_or_unknown (currencies c))"
    by (rule make_question_sel(2) [OF m])
  have "count_list (options q) (Txt (correctAnswer q)) = 1" if "correctAnswer q \<noteq> Str ''Unknown''"
  proof -
    have "first (currencies c) = correctAnswer q" using that ca by (simp add: first_of_known)
    then have "Txt (correctAnswer q) \<in> set (options q)"
      using mset_eq_mem [OF ms, of "Txt (correctAnswer q)"] prefix_single [OF p(2)] by simp
    then show ?thesis using d by (simp add: count_list_distinct)
  qed
  ultimately show ?thesis using l d by blast
qed

lemma gen_Languages:
  assumes "pool \<noteq> []"
  shows "\<exists>q k'. generateMultipleChoiceQuestion h rnd k e Languages pool = Some (Inr q, k') \<and>
     length (options q) = 4 \<and> distinct (options q) \<and>
     (correctAnswer q \<noteq> Str ''Unknown'' \<longrightarrow> count_list (options q) (Txt (correctAnswer q)) = 1)"
proof -
  define c where "c = pool ! floor_random rnd k (length pool)"
  obtain opts k2 where g: "generateLanguageOptions rnd (Suc k) c pool = (opts, k2)"
    by (rule prod.exhaust)
  obtain q k' where m: "make_question rnd k2 Languages
       (''Which languages are spoken in '' @ name c @ ''?'')
       (Str (first_or_unknown (languages c))) (map (\<lambda>l. Txt (Str l)) opts)
       (first_or_unknown (languages c) @ '' is one of the official languages spoken in '' @
          name c @ ''.'')
       None (name c) = (q, k')"
    by (rule prod.exhaust)
  have "generateMultipleChoiceQuestion h rnd k e Languages pool = Some (Inr q, k')"
    unfolding generateMultipleChoiceQuestion_def Let_def c_def [symmetric] g prod.case
    using pool_index [OF assms] m by simp
  moreover
  note p = generateLanguageOptions_props [OF g]
  have ms: "mset (options q) = mset (map (\<lambda>l. Txt (Str l)) opts)" by (rule make_question_sel(1) [OF m])
  have l: "length (options q) = 4" using mset_eq_len [OF ms] p(1) by simp
  have d: "distinct (options q)"
    using mset_eq_distinct [OF ms] p(2) by (simp add: distinct_map inj_on_def)
  have ca: "correctAnswer q = Str (first_or_unknown (languages c))"
    by (rule make_question_sel(2) [OF m])
  have "count_list (options q) (Txt (correctAnswer q)) = 1" if "correctAnswer q \<noteq> Str ''Unknown''"
  proof -
    have "first_or_unknown (languages c) \<in> set opts" using that ca p(3) by simp
    then have "Txt (correctAnswer q) \<in> set (options q)"
      using mset_eq_mem [OF ms, of "Txt (correctAnswer q)"] ca by auto
    then show ?thesis using d by (simp add: count_list_distinct)
  qed
  ultimately show ?thesis using l d by blast
qed

lemma gen_Timezone:
  assumes "pool \<noteq> []"
  shows "\<exists>q k'. generateMultipleChoiceQuestion h rnd k e Timezone pool = Some (Inr q, k') \<and>
     length (options q) = 4 \<and> distinct (options q) \<and>
     count_list (options q) (Txt (correctAnswer q)) = 1"
proof -
  define c where "c = pool ! floor_random rnd k (length pool)"
  obtain opts k2 where g: "generateTimezoneOptions rnd (Suc k) c pool = Some (opts, k2)"
    and p: "length opts = 4" "distinct opts" "first (timezones c) \<in> set opts"
    using generateTimezoneOptions_props [of rnd "Suc k" c pool] by blast
  obtain q k' where m: "make_question rnd k2 Timezone
       (''What is the time zone of '' @ name c @ ''?'')
       (first (timezones c)) (map Txt opts)
       (''The time zone of '' @ name c @ '' is '' @ to_text (first (timezones c)) @ ''.'')
       None (name c) = (q, k')"
    by (rule prod.exhaust)
  have "generateMultipleChoiceQuestion h rnd k e Timezone pool = Some (Inr q, k')"
    unfolding generateMultipleChoiceQuestion_def Let_def c_def [symmetric] g
    using pool_index [OF assms] m by simp
  moreover
  have ms: "mset (options q) = mset (map Txt opts)" by (rule make_question_sel(1) [OF m])
  have l: "length (options q) = 4" using mset_eq_len [OF ms] p(1) by simp
  have d: "distinct (options q)" using mset_eq_distinct [OF ms] p(2) by (simp add: distinct_Txt)
  have "Txt (first (timezones c)) \<in> set (options q)"
    using mset_eq_mem [OF ms, of "Txt (first (timezones c))"] p(3) by simp
  then have "count_list (options q) (Txt (correctAnswer q)) = 1"
    using d by (simp add: count_list_distinct make_question_sel(2) [OF m])
  ultimately show ?thesis using l d by blast
qed

lemma gen_Flag:
  assumes "pool \<noteq> []"
  shows "\<exists>q k'. generateMultipleChoiceQuestion h rnd k e Flag pool = Some (Inr q, k') \<and>
     1 \<le> length (options q) \<and> length (options q) \<le> 4 \<and>
     (\<exists>s a. correctAnswer q = Str s \<and> FlagObj (subject q) s a \<in> set (options q))"
proof -
  define c where "c = pool ! floor_random rnd k (length pool)"
  obtain opts k2 where g: "generateFlagOptions rnd (Suc k) c pool = (opts, k2)"
    by (rule prod.exhaust)
  obtain q k' where m: "make_question rnd k2 Flag
       (''What does the flag of '' @ name c @ '' look like?'')
       (Str (flag c)) opts
       (''This is what the flag of '' @ name c @ '' looks like.'')
       (Some opts) (name c) = (q, k')"
    by (rule prod.exhaust)
  have "generateMultipleChoiceQuestion h rnd k e Flag pool = Some (Inr q, k')"
    unfolding generateMultipleChoiceQuestion_def Let_def c_def [symmetric] g prod.case
    using pool_index [OF assms] m by simp
  moreover
  define others where "others = map (\<lambda>x. FlagObj (name x) (flag x) (flagAlt x))
     (filter (\<lambda>x. name x \<noteq> name c \<and> flag x \<noteq> []) pool)"
  have o: "opts = fst (pick_any rnd (Suc k) [FlagObj (name c) (flag c) (flagAlt c)] others)"
    using g unfolding generateFlagOptions_def Let_def others_def [symmetric] by simp
  have p: "prefix [FlagObj (name c) (flag c) (flagAlt c)] opts" "length opts \<le> 4"
    using pick_any_props [of "[FlagObj (name c) (flag c) (flagAlt c)]" rnd "Suc k" others]
    by (simp_all add: o)
  have ms: "mset (options q) = mset opts" by (rule make_question_sel(1) [OF m])
  have l: "1 \<le> length (options q)" "length (options q) \<le> 4"
    using mset_eq_len [OF ms] prefix_single [OF p(1)] p(2) by simp_all
  have "FlagObj (subject q) (flag c) (flagAlt c) \<in> set (options q)"
    using mset_eq_mem [OF ms, of "FlagObj (name c) (flag c) (flagAlt c)"] prefix_single [OF p(1)]
    by (simp add: make_question_sel(4) [OF m])
  then have "\<exists>s a. correctAnswer q = Str s \<and> FlagObj (subject q) s a \<in> set (options q)"
    using make_question_sel(2) [OF m] by blast
  ultimately show ?thesis using l by blast
qed








section \<open>The option set of a generated question\<close>






text \<open>
  Two more runs that the statement above leaves out: an area of 0 gives four equal options, and a subject
  without languages gives a question whose correct answer \<open>Unknown\<close> is none of its
  options.
\<close>

lemma area_zero_options:
  "generateAreaOptions h ''easy'' (Fin 0) =
     replicate 4 (Txt (Str (h (Fin 0) @ '' km'' @ [CHR 0xC2, CHR 0xB2])))"
  by (simp add: generateAreaOptions_def multipliers_def formatArea_def to_double_def
      numeral_eq_Suc)

lemma unknown_language_question:
  "generateMultipleChoiceQuestion en_US (always 0) 0 new_engine Languages (countries atlantis_engine) =
     Some (Inr \<lparr>qtype = Languages, prompt = ''Which languages are spoken in Atlantis?'',
            correctAnswer = Str ''Unknown'',
            options = [Txt (Str ''Spanish''), Txt (Str ''French''), Txt (Str ''Arabic''),
                       Txt (Str ''English'')],
            explanation = ''Unknown is one of the official languages spoken in Atlantis.'',
            media = None, subject = ''Atlantis''\<rparr>, 8)"
  by code_simp

section \<open>Population normalization\<close>

lemma floor_rat_numeral:
  "\<lfloor>(numeral a :: rat) / numeral b\<rfloor> = numeral a div numeral b"
  "\<lfloor>- ((numeral a :: rat) / numeral b)\<rfloor> = - numeral a div numeral b"
  using floor_divide_of_int_eq [where ?'a = rat, of "numeral a" "numeral b"]
    floor_divide_of_int_eq [where ?'a = rat, of "- numeral a" "numeral b"]
  by simp_all

lemma round_half_even_bounds:
  assumes "0 \<le> x"
  shows "0 \<le> round_half_even x \<and> of_int (round_half_even x) \<le> x + 1"
proof -
  have f: "0 \<le> \<lfloor>x\<rfloor>" using assms by simp
  have g: "rat_of_int \<lfloor>x\<rfloor> \<le> x" by simp
  have "round_half_even x = \<lfloor>x\<rfloor> \<or> round_half_even x = \<lfloor>x\<rfloor> + 1"
    by (simp add: round_half_even_def Let_def)
  then show ?thesis
  proof
    assume "round_half_even x = \<lfloor>x\<rfloor>"
    then show ?thesis using f g by simp linarith
  next
    assume "round_half_even x = \<lfloor>x\<rfloor> + 1"
    then show ?thesis using f g by simp
  qed
qed

lemma to_double_nonneg:
  assumes "0 \<le> x" and "x < 2 ^ 100"
  shows "\<exists>y\<ge>0. to_double x = Fin y"
proof (cases "x = 0")
  case True
  then show ?thesis by (simp add: to_double_def)
next
  case False
  then have pos: "0 < x" using assms(1) by simp
  define e where "e = max (floor_log2 x - 52) (- 1074)"
  define y where "y = of_int (round_half_even (x / pow2 e)) * pow2 e"
  have pe: "0 < pow2 e" by (rule pow2_pos)
  have "pow2 (floor_log2 x - 52) \<le> pow2 (floor_log2 x)" by (rule pow2_mono) simp
  also have "\<dots> \<le> x" using pos by (rule floor_log2_le)
  finally have 1: "pow2 (floor_log2 x - 52) \<le> x" .
  have 2: "pow2 (- 1074) \<le> 1" by (simp add: pow2_def)
  have ple: "pow2 e \<le> x + 1"
  proof (cases "floor_log2 x - 52 \<le> - 1074")
    case True
    then have "e = - 1074" by (simp add: e_def)
    then show ?thesis using 2 pos by simp
  next
    case False
    then have "e = floor_log2 x - 52" by (simp add: e_def)
    then show ?thesis using 1 by simp
  qed
  have q: "0 \<le> x / pow2 e" using pos pe by simp
  have y0: "0 \<le> y" using round_half_even_bounds [OF q] pe by (simp add: y_def)
  have "y \<le> (x / pow2 e + 1) * pow2 e"
    unfolding y_def using round_half_even_bounds [OF q] pe by (simp add: mult_right_mono)
  also have "\<dots> = x + pow2 e" using pe by (simp add: field_simps)
  also have "\<dots> \<le> 2 * x + 1" using ple by simp
  also have "\<dots> < 2 * 2 ^ 100 + 1" using assms(2) by simp
  also have "\<dots> < (2::rat) ^ 1024" by simp
  finally have "\<not> 2 ^ 1024 \<le> y" by simp
  then have "to_double x = Fin y"
    using pos by (simp add: to_double_def Let_def e_def [symmetric] y_def [symmetric])
  then show ?thesis using y0 by blast
qed

lemma Math_round_nonneg: "0 \<le> y \<Longrightarrow> \<exists>n\<ge>0. Math_round (Fin y) = Fin (of_int n)"
  by (rule exI [of _ "\<lfloor>y + 1 / 2\<rfloor>"]) simp

lemma population_heuristic_nonneg:
  assumes "0 \<le> a"
  shows "\<exists>n\<ge>0. population_heuristic (Fin a) = Fin (of_int n)"
proof -
  have s: "\<exists>n\<ge>0. Math_round (times (Fin a) c) = Fin (of_int n)"
    if "0 \<le> c" "a * c < 2 ^ 100" for c
  proof -
    have "0 \<le> a * c" using assms that by simp
    from to_double_nonneg [OF this that(2)] obtain y where "0 \<le> y" "to_double (a * c) = Fin y"
      by blast
    then show ?thesis using Math_round_nonneg [of y] by simp
  qed
  show ?thesis
  proof (cases "1000000 \<le> a")
    case True
    then show ?thesis using Math_round_nonneg [OF assms] by (simp add: population_heuristic_def)
  next
    case False
    note big = this
    show ?thesis
    proof (cases "a < 10")
      case True
      then have "a * 1000000 < 10 * 1000000" by simp
      also have "\<dots> < (2::rat) ^ 100" by simp
      finally have "\<exists>n\<ge>0. Math_round (times (Fin a) 1000000) = Fin (of_int n)"
        by (intro s) simp_all
      then show ?thesis using True big by (simp add: population_heuristic_def)
    next
      case False
      note ten = this
      show ?thesis
      proof (cases "a < 10000")
        case True
        then have "a * 1000 < 10000 * 1000" by simp
        also have "\<dots> < (2::rat) ^ 100" by simp
        finally have "\<exists>n\<ge>0. Math_round (times (Fin a) 1000) = Fin (of_int n)"
          by (intro s) simp_all
        then show ?thesis using True big ten by (simp add: population_heuristic_def)
      next
        case False
        then show ?thesis using big ten Math_round_nonneg [OF assms]
          by (simp add: population_heuristic_def)
      qed
    qed
  qed
qed

lemma times_int:
  assumes "a * c = of_int n" and "\<bar>n\<bar> < 2 ^ 53"
  shows "times (Fin a) c = Fin (of_int n)"
  using to_double_int [OF assms(2)] assms(1) by simp

lemma normalizePopulation_5: "normalizePopulation (JNumber (Fin 5)) = Fin 5000000"
  using times_int [of 5 1000000 5000000] by (simp add: population_heuristic_def floor_rat_numeral)

lemma normalizePopulation_minus_1: "normalizePopulation (JNumber (Fin (- 1))) = Fin (- 1000000)"
  using times_int [of "- 1" 1000000 "- 1000000"]
  by (simp add: population_heuristic_def floor_rat_numeral)

lemma normalizePopulation_1500000: "normalizePopulation (JNumber (Fin 1500000)) = Fin 1500000"
  by (simp add: population_heuristic_def floor_rat_numeral)

lemma parseFloat_5123: "parseFloat ''5123'' = to_double 5123"
  by (simp add: parseFloat_def sign_of_def trimStart_def starts_with_def white_space_def
      is_digit_def decimal_def pow10_def exponent_part_def Let_def)

lemma remove_commas_5123: "remove_commas_spaces ''5,123'' = ''5123''"
  by (simp add: starts_with_def white_space_def)

lemma normalizePopulation_string: "normalizePopulation (JString ''5,123'') = Fin 5123000"
proof -
  have "parseFloat (remove_commas_spaces ''5,123'') = Fin 5123"
    using to_double_int [of 5123] by (simp only: remove_commas_5123 parseFloat_5123) simp
  moreover have "population_heuristic (Fin 5123) = Fin 5123000"
    using times_int [of 5123 1000 5123000] by (simp add: population_heuristic_def floor_rat_numeral)
  ultimately show ?thesis by (simp only: normalizePopulation.simps Let_def) simp
qed

lemma parseFloat_abc: "parseFloat (remove_commas_spaces ''abc'') = NaN"
  by (simp add: parseFloat_def sign_of_def trimStart_def starts_with_def white_space_def
      is_digit_def Let_def)

text \<open>
  C2, as the code has it. \<open>normalizePopulation\<close> maps every finite non-negative number,
  and every string whose leading number is finite and non-negative, to a non-negative
  integer. It gives 5000000 for 5, 5123000 for the string \<open>5,123\<close> and 1500000 for
  1500000. A negative number is scaled like any other value below 10: for -1 the result
  is -1000000. The values \<open>null\<close> and \<open>undefined\<close>, booleans, objects and strings with no
  leading number give 0.
\<close>

theorem normalizePopulation_values:
  "(\<forall>a. 0 \<le> a \<longrightarrow> (\<exists>n\<ge>0. normalizePopulation (JNumber (Fin a)) = Fin (of_int n))) \<and>
   (\<forall>s a. parseFloat (remove_commas_spaces s) = Fin a \<and> 0 \<le> a \<longrightarrow>
      (\<exists>n\<ge>0. normalizePopulation (JString s) = Fin (of_int n))) \<and>
   normalizePopulation (JNumber (Fin 5)) = Fin 5000000 \<and>
   normalizePopulation (JString ''5,123'') = Fin 5123000 \<and>
   normalizePopulation (JNumber (Fin 1500000)) = Fin 1500000 \<and>
   normalizePopulation (JNumber (Fin (- 1))) = Fin (- 1000000) \<and>
   normalizePopulation JNull = Fin 0 \<and> normalizePopulation JUndefined = Fin 0 \<and>
   normalizePopulation (JBoolean b) = Fin 0 \<and> normalizePopulation JObject = Fin 0 \<and>
   (\<forall>s. parseFloat (remove_commas_spaces s) = NaN \<longrightarrow> normalizePopulation (JString s) = Fin 0)"
proof -
  have 1: "\<forall>a. 0 \<le> a \<longrightarrow> (\<exists>n\<ge>0. normalizePopulation (JNumber (Fin a)) = Fin (of_int n))"
    using population_heuristic_nonneg by simp
  have 2: "\<forall>s a. parseFloat (remove_commas_spaces s) = Fin a \<and> 0 \<le> a \<longrightarrow>
      (\<exists>n\<ge>0. normalizePopulation (JString s) = Fin (of_int n))"
    using population_heuristic_nonneg by (simp add: Let_def)
  have 3: "\<forall>s. parseFloat (remove_commas_spaces s) = NaN \<longrightarrow> normalizePopulation (JString s) = Fin 0"
    by simp
  show ?thesis
    using 1 2 3 normalizePopulation_5 normalizePopulation_string normalizePopulation_1500000
      normalizePopulation_minus_1
    by (simp only: normalizePopulation.simps simp_thms)
qed

theorem normalizePopulation_values_witness:
  "(0::rat) \<le> 7 \<and> (\<exists>n\<ge>0. normalizePopulation (JNumber (Fin 7)) = Fin (of_int n)) \<and>
   parseFloat (remove_commas_spaces ''5,123'') = Fin 5123 \<and>
   (\<exists>n\<ge>0. normalizePopulation (JString ''5,123'') = Fin (of_int n)) \<and>
   parseFloat (remove_commas_spaces ''abc'') = NaN \<and>
   normalizePopulation (JString ''abc'') = Fin 0"
proof -
  have p: "parseFloat (remove_commas_spaces ''5,123'') = Fin 5123"
    using to_double_int [of 5123] by (simp only: remove_commas_5123 parseFloat_5123) simp
  have z: "(0::rat) \<le> 7" "(0::rat) \<le> 5123" by simp_all
  show ?thesis
    using normalizePopulation_values [of True] p z parseFloat_abc by blast
qed

text \<open>
  The specification states that \<open>normalizePopulation(-1)\<close> is 0 and that no output is negative;
  the code returns -1000000.
\<close>

theorem normalizePopulation_negative_counterexample:
  "normalizePopulation (JNumber (Fin (- 1))) = Fin (- 1000000) \<and>
   normalizePopulation (JNumber (Fin (- 1))) \<noteq> Fin 0"
  using times_int [of "- 1" 1000000 "- 1000000"]
  by (simp add: population_heuristic_def floor_rat_numeral)

section \<open>Records of the data provider\<close>

lemma mapNinjaCountry_Some:
  assumes "mapNinjaCountry data countryName = Some c"
  obtains c0 rest where "data = Some (c0 # rest)"
  using assms by (auto simp: mapNinjaCountry_def split: option.splits list.splits)

text \<open>
  C3, as the code has it. A record built by \<open>mapNinjaCountry\<close> has non-empty currencies
  and time zones (padded with \<open>Unknown\<close> and \<open>UTC\<close>). Its languages are \<open>Unknown\<close> alone
  when the payload has no languages or an empty string, the payload's array as it is when
  it is an array, and the non-blank items between commas when it is a non-empty string.
  A record built by \<open>loadFromRestCountries\<close> has non-empty languages, currencies or time
  zones exactly when the payload has at least one of them, and every loaded record is
  built that way.
\<close>

theorem provider_sequences:
  "(\<forall>c. mapNinjaCountry data countryName = Some c \<longrightarrow>
      currencies c \<noteq> [] \<and> timezones c \<noteq> [] \<and>
      (\<forall>c0 rest. data = Some (c0 # rest) \<longrightarrow>
         (n_languages c0 = NoLanguages \<or> n_languages c0 = LanguageString [] \<longrightarrow>
            languages c = [''Unknown'']) \<and>
         (\<forall>ls. n_languages c0 = LanguageArray ls \<longrightarrow> languages c = ls) \<and>
         (\<forall>s. n_languages c0 = LanguageString s \<and> s \<noteq> [] \<longrightarrow>
            languages c = filter (\<lambda>l. l \<noteq> []) (map trim (split_comma s))))) \<and>
   (languages (mapRestCountry r) \<noteq> [] \<longleftrightarrow> (\<exists>ls. r_languages r = Some ls \<and> ls \<noteq> [])) \<and>
   (currencies (mapRestCountry r) \<noteq> [] \<longleftrightarrow> (\<exists>cs. r_currencies r = Some cs \<and> cs \<noteq> [])) \<and>
   (timezones (mapRestCountry r) \<noteq> [] \<longleftrightarrow> (\<exists>ts. r_timezones r = Some ts \<and> ts \<noteq> [])) \<and>
   (\<forall>e'. loadFromRestCountries (Some rs) e = Inr e' \<longrightarrow>
      set (countries e') \<subseteq> mapRestCountry ` set rs)"
proof -
  have 1: "currencies c \<noteq> [] \<and> timezones c \<noteq> [] \<and>
      (\<forall>c0 rest. data = Some (c0 # rest) \<longrightarrow>
         (n_languages c0 = NoLanguages \<or> n_languages c0 = LanguageString [] \<longrightarrow>
            languages c = [''Unknown'']) \<and>
         (\<forall>ls. n_languages c0 = LanguageArray ls \<longrightarrow> languages c = ls) \<and>
         (\<forall>s. n_languages c0 = LanguageString s \<and> s \<noteq> [] \<longrightarrow>
            languages c = filter (\<lambda>l. l \<noteq> []) (map trim (split_comma s))))"
    if "mapNinjaCountry data countryName = Some c" for c
  proof -
    from that obtain c0 rest where d: "data = Some (c0 # rest)" by (rule mapNinjaCountry_Some)
    have c: "c = the (mapNinjaCountry data countryName)" using that by simp
    have "currencies c \<noteq> []" "timezones c = [or_string (n_timezone c0) ''UTC'']"
      "languages c = (case n_languages c0 of
                         LanguageArray ls \<Rightarrow> ls
                       | LanguageString s \<Rightarrow>
                           if 0 < length s
                           then filter (\<lambda>l. l \<noteq> []) (map trim (split_comma s))
                           else [''Unknown'']
                       | NoLanguages \<Rightarrow> [''Unknown''])"
      unfolding c by (simp_all add: d mapNinjaCountry_def Let_def)
    then show ?thesis by (auto simp: d)
  qed
  have 2: "languages (mapRestCountry r) \<noteq> [] \<longleftrightarrow> (\<exists>ls. r_languages r = Some ls \<and> ls \<noteq> [])"
    by (simp add: mapRestCountry_def split: option.splits)
  have 3: "currencies (mapRestCountry r) \<noteq> [] \<longleftrightarrow> (\<exists>cs. r_currencies r = Some cs \<and> cs \<noteq> [])"
    by (simp add: mapRestCountry_def split: option.splits)
  have 4: "timezones (mapRestCountry r) \<noteq> [] \<longleftrightarrow> (\<exists>ts. r_timezones r = Some ts \<and> ts \<noteq> [])"
    by (simp add: mapRestCountry_def split: option.splits)
  have 5: "\<forall>e'. loadFromRestCountries (Some rs) e = Inr e' \<longrightarrow>
      set (countries e') \<subseteq> mapRestCountry ` set rs"
    by (auto simp: loadFromRestCountries_def)
  show ?thesis using 1 2 3 4 5 by blast
qed

theorem provider_sequences_witness:
  "mapNinjaCountry (Some [ninja_france]) ''France'' = Some france_from_ninja \<and>
   currencies france_from_ninja \<noteq> [] \<and> timezones france_from_ninja \<noteq> [] \<and>
   n_languages ninja_france = LanguageString ''French, Breton'' \<and>
   languages france_from_ninja = [''French'', ''Breton''] \<and>
   loadFromRestCountries (Some [bare_rest_country]) new_engine = Inr atlantis_engine \<and>
   set (countries atlantis_engine) \<subseteq> mapRestCountry ` set [bare_rest_country]"
proof -
  have c: "getCountryCode ''France'' = ''fr''"
    by code_simp
  have t: "filter (\<lambda>l. l \<noteq> []) (map trim (split_comma ''French, Breton'')) = [''French'', ''Breton'']"
    by code_simp
  have m: "mapNinjaCountry (Some [ninja_france]) ''France'' = Some france_from_ninja"
    by (simp add: mapNinjaCountry_def ninja_france_def france_from_ninja_def Let_def c t
        population_heuristic_def floor_rat_numeral del: split_comma.simps)
  have n: "n_languages ninja_france = LanguageString ''French, Breton''"
    by (simp add: ninja_france_def)
  have l: "loadFromRestCountries (Some [bare_rest_country]) new_engine = Inr atlantis_engine"
    by (simp add: loadFromRestCountries_def mapRestCountry_def bare_rest_country_def
        atlantis_engine_def)
  have ne: "''French, Breton'' \<noteq> []"
    by simp
  note ps = provider_sequences [of "Some [ninja_france]" "''France''" bare_rest_country
      "[bare_rest_country]" new_engine]
  from ps m have a: "currencies france_from_ninja \<noteq> []" "timezones france_from_ninja \<noteq> []"
    by blast+
  from ps m n ne
  have "languages france_from_ninja = filter (\<lambda>l. l \<noteq> []) (map trim (split_comma ''French, Breton''))"
    by blast
  then have b: "languages france_from_ninja = [''French'', ''Breton'']"
    by (simp only: t)
  from ps l have d: "set (countries atlantis_engine) \<subseteq> mapRestCountry ` set [bare_rest_country]"
    by blast
  from m a n b l d show ?thesis
    by (intro conjI)
qed

text \<open>
  The specification states that every record has non-empty languages, currencies and time zones.
  A country of the bulk source without these fields is loaded with three empty sequences.
\<close>

theorem rest_record_counterexample:
  "loadFromRestCountries (Some [bare_rest_country]) new_engine = Inr atlantis_engine \<and>
   map languages (countries atlantis_engine) = [[]] \<and>
   map currencies (countries atlantis_engine) = [[]] \<and>
   map timezones (countries atlantis_engine) = [[]]"
  by (simp add: loadFromRestCountries_def mapRestCountry_def bare_rest_country_def
      atlantis_engine_def)

section \<open>The question counter\<close>

lemma gen_total: "\<exists>r k'. generateMultipleChoiceQuestion h rnd k e t pool = Some (r, k')"
proof (cases "pool = []")
  case True
  then show ?thesis by (simp add: gen_empty)
next
  case False
  show ?thesis
    using gen_Population [OF False, of h rnd k e] gen_Area [OF False, of h rnd k e]
      gen_Gdp [OF False, of h rnd k e] gen_Capital [OF False, of h rnd k e]
      gen_Currency [OF False, of h rnd k e] gen_Languages [OF False, of h rnd k e]
      gen_Timezone [OF False, of h rnd k e] gen_Flag [OF False, of h rnd k e]
    by (cases t) blast+
qed

lemma generateQuestion_total: "\<exists>r k'. generateQuestion h rnd k e = Some (r, k')"
  using gen_total by (simp add: generateQuestion_def split: sum.splits)

lemma nextQuestion_total: "\<exists>r e' k'. nextQuestion h rnd k e = Some (r, e', k')"
proof -
  obtain r k' where "generateQuestion h rnd k (e\<lparr>questionNumber := questionNumber e + 1\<rparr>) = Some (r, k')"
    using generateQuestion_total by blast
  then show ?thesis by (cases r) (simp_all add: nextQuestion_def Let_def)
qed

lemma nextQuestion_effect:
  assumes "nextQuestion h rnd k e = Some (r, e', k')"
  shows "totalQuestions e' = totalQuestions e"
    and "questionNumber e \<ge> totalQuestions e \<Longrightarrow> r = Inr None \<and> e' = e \<and> k' = k"
    and "questionNumber e < totalQuestions e \<Longrightarrow> questionNumber e' = questionNumber e + 1"
    and "r \<noteq> Inr None \<Longrightarrow> questionNumber e < totalQuestions e"
  using assms
  by (auto simp: nextQuestion_def Let_def split: if_splits option.splits sum.splits prod.splits)

lemma nextQuestions_counter:
  "nextQuestions h rnd k n e = Some (e', k') \<Longrightarrow>
   questionNumber e' = questionNumber e + int n \<and> totalQuestions e' = totalQuestions e"
proof (induction n arbitrary: k e)
  case 0
  then show ?case by simp
next
  case (Suc n)
  from Suc.prems obtain q e1 k1 where
    s: "nextQuestion h rnd k e = Some (Inr (Some q), e1, k1)" and
    r: "nextQuestions h rnd k1 n e1 = Some (e', k')"
    by (auto split: option.splits sum.splits prod.splits)
  have "questionNumber e < totalQuestions e" using nextQuestion_effect(4) [OF s] by simp
  then have "questionNumber e1 = questionNumber e + 1" "totalQuestions e1 = totalQuestions e"
    using nextQuestion_effect(1,3) [OF s] by simp_all
  then show ?case using Suc.IH [OF r] by simp
qed

text \<open>
  C7. If the question counter is between 0 and the total, it still is after \<open>nextQuestion\<close>
  (which always returns, with a question, with \<open>null\<close> or by throwing), after
  \<open>checkAnswer\<close>, after \<open>reset\<close> and after \<open>setDifficulty\<close>. After as many calls of
  \<open>nextQuestion\<close> that return a question as the total, starting from a reset state, the
  counter equals the total, also as \<open>getStats\<close> reports it, and a further call returns
  \<open>null\<close> and leaves the state as it is.
\<close>

theorem question_counter_bounds:
  assumes "0 \<le> questionNumber e \<and> questionNumber e \<le> totalQuestions e"
  shows "(\<forall>h rnd k. \<exists>r e' k'. nextQuestion h rnd k e = Some (r, e', k') \<and>
            0 \<le> questionNumber e' \<and> questionNumber e' \<le> totalQuestions e') \<and>
         (\<forall>a r e'. checkAnswer a e = Inr (r, e') \<longrightarrow>
            0 \<le> questionNumber e' \<and> questionNumber e' \<le> totalQuestions e') \<and>
         (0 \<le> questionNumber (reset e) \<and> questionNumber (reset e) \<le> totalQuestions (reset e)) \<and>
         (\<forall>level. 0 \<le> questionNumber (setDifficulty level e) \<and>
            questionNumber (setDifficulty level e) \<le> totalQuestions (setDifficulty level e)) \<and>
         (\<forall>h rnd k e' k'.
            nextQuestions h rnd k (nat (totalQuestions e)) (reset e) = Some (e', k') \<longrightarrow>
            questionNumber e' = totalQuestions e' \<and>
            stats_questionNumber (getStats e') = stats_totalQuestions (getStats e') \<and>
            (\<forall>h' rnd' j. nextQuestion h' rnd' j e' = Some (Inr None, e', j)))"
proof -
  have t: "0 \<le> totalQuestions e" using assms by simp
  have 1: "\<exists>r e' k'. nextQuestion h rnd k e = Some (r, e', k') \<and>
            0 \<le> questionNumber e' \<and> questionNumber e' \<le> totalQuestions e'" for h rnd k
  proof -
    obtain r e' k' where n: "nextQuestion h rnd k e = Some (r, e', k')"
      using nextQuestion_total by blast
    have "0 \<le> questionNumber e' \<and> questionNumber e' \<le> totalQuestions e'"
      using nextQuestion_effect(1,2,3) [OF n] assms
      by (cases "questionNumber e < totalQuestions e") auto
    with n show ?thesis by blast
  qed
  have 2: "\<forall>a r e'. checkAnswer a e = Inr (r, e') \<longrightarrow>
            0 \<le> questionNumber e' \<and> questionNumber e' \<le> totalQuestions e'"
    using assms by (auto simp: checkAnswer_def Let_def split: option.splits if_splits)
  have 3: "0 \<le> questionNumber (reset e) \<and> questionNumber (reset e) \<le> totalQuestions (reset e)"
    using t by (simp add: reset_def)
  have 4: "0 \<le> questionNumber (setDifficulty level e) \<and>
            questionNumber (setDifficulty level e) \<le> totalQuestions (setDifficulty level e)" for level
    using assms t by (simp add: setDifficulty_def reset_def split: property.splits)
  have 5: "questionNumber e' = totalQuestions e' \<and>
            stats_questionNumber (getStats e') = stats_totalQuestions (getStats e') \<and>
            (\<forall>h' rnd' j. nextQuestion h' rnd' j e' = Some (Inr None, e', j))"
    if "nextQuestions h rnd k (nat (totalQuestions e)) (reset e) = Some (e', k')" for h rnd k e' k'
  proof -
    have "questionNumber e' = questionNumber (reset e) + int (nat (totalQuestions e))"
      "totalQuestions e' = totalQuestions (reset e)"
      using nextQuestions_counter [OF that] by simp_all
    then have "questionNumber e' = totalQuestions e'" using t by (simp add: reset_def)
    then show ?thesis by (simp add: nextQuestion_def getStats_def)
  qed
  show ?thesis using 1 2 3 4 5 by blast
qed

theorem question_counter_bounds_witness:
  "0 \<le> questionNumber loaded_engine \<and> questionNumber loaded_engine \<le> totalQuestions loaded_engine \<and>
   nextQuestions en_US (always 3) 0 (nat (totalQuestions loaded_engine)) (reset loaded_engine) =
     Some (loaded_engine\<lparr>questionNumber := 10, currentQuestion := Some france_capital_question\<rparr>, 20) \<and>
   questionNumber (loaded_engine\<lparr>questionNumber := 10, currentQuestion := Some france_capital_question\<rparr>) = 10 \<and>
   nextQuestion en_US (always 3) 20
       (loaded_engine\<lparr>questionNumber := 10, currentQuestion := Some france_capital_question\<rparr>) =
     Some (Inr None,
           loaded_engine\<lparr>questionNumber := 10, currentQuestion := Some france_capital_question\<rparr>, 20)"
proof -
  let ?e = "loaded_engine\<lparr>questionNumber := 10, currentQuestion := Some france_capital_question\<rparr>"
  have i: "0 \<le> questionNumber loaded_engine \<and> questionNumber loaded_engine \<le> totalQuestions loaded_engine"
    by (simp add: loaded_engine_def new_engine_def)
  have t: "totalQuestions loaded_engine = 10" "totalQuestions ?e = 10"
    by (simp_all add: loaded_engine_def new_engine_def)
  have "nextQuestions en_US (always 3) 0 (nat 10) (reset loaded_engine) = Some (?e, 20)"
    by code_simp
  then have n: "nextQuestions en_US (always 3) 0 (nat (totalQuestions loaded_engine)) (reset loaded_engine) =
     Some (?e, 20)"
    by (simp only: t)
  from question_counter_bounds [OF i] n
  have "questionNumber ?e = totalQuestions ?e" "nextQuestion en_US (always 3) 20 ?e = Some (Inr None, ?e, 20)"
    by blast+
  with i n t show ?thesis by simp
qed

section \<open>Formatting\<close>

lemma en_US_17075400: "en_US (Fin 17075400) = ''17,075,400''"
  by code_simp

lemma de_DE_17075400: "de_DE (Fin 17075400) = ''17.075.400''"
  by code_simp

text \<open>
  C9, as the code has it. On every host \<open>formatPopulation(1500000000)\<close> is
  \<open>1.50 billion\<close>, \<open>formatPopulation(25000000)\<close> is \<open>25.0 million\<close> and
  \<open>formatGDP(2000000000000)\<close> is \<open>$2.00 trillion\<close>; each tier starts at its threshold, so
  that a population of \<open>10^9\<close> is \<open>1.00 billion\<close>, one of \<open>10^6\<close> is \<open>1.0 million\<close>, a GDP
  of \<open>10^12\<close> is \<open>$1.00 trillion\<close>, one of \<open>10^9\<close> is \<open>$1.0 billion\<close>, one of \<open>10^6\<close> is
  \<open>$1 million\<close>, and 999999 is left to the host. \<open>formatArea\<close> of a number is what the
  host's \<open>toLocaleString\<close> prints for it, followed by a space, \<open>km\<close> and the superscript two:
  for 17075400 that is \<open>17,075,400\<close> and the suffix on a host that prints 17075400 as
  \<open>17,075,400\<close>. The tiers: a population of at least \<open>10^9\<close> is printed as its quotient by
  \<open>10^9\<close> with two decimals and \<open>billion\<close>, one of at least \<open>10^6\<close> below that as its
  quotient by \<open>10^6\<close> with one decimal and \<open>million\<close>, every other one as the host prints
  it; a GDP of at least \<open>10^12\<close> as a dollar sign, its quotient by \<open>10^12\<close> with two decimals
  and \<open>trillion\<close>, one of at least \<open>10^9\<close> below that with one decimal and \<open>billion\<close>, one
  of at least \<open>10^6\<close> below that with no decimal and \<open>million\<close>, every other one as a dollar
  sign and what the host prints.
\<close>

theorem formatting_rules:
  "formatPopulation h (Fin 1500000000) = ''1.50 billion'' \<and>
   formatPopulation h (Fin 25000000) = ''25.0 million'' \<and>
   formatGDP h (Fin 2000000000000) = ''$2.00 trillion'' \<and>
   formatPopulation h (Fin 1000000000) = ''1.00 billion'' \<and>
   formatPopulation h (Fin 1000000) = ''1.0 million'' \<and>
   formatPopulation h (Fin 999999) = h (Fin 999999) \<and>
   formatGDP h (Fin 1000000000000) = ''$1.00 trillion'' \<and>
   formatGDP h (Fin 1000000000) = ''$1.0 billion'' \<and>
   formatGDP h (Fin 1000000) = ''$1 million'' \<and>
   formatGDP h (Fin 999999) = ''$'' @ h (Fin 999999) \<and>
   formatArea h a = h a @ '' km'' @ [CHR 0xC2, CHR 0xB2] \<and>
   (h (Fin 17075400) = ''17,075,400'' \<longrightarrow>
      formatArea h (Fin 17075400) = ''17,075,400 km'' @ [CHR 0xC2, CHR 0xB2]) \<and>
   (ge p 1000000000 \<longrightarrow>
      formatPopulation h p = toFixed 2 (over p 1000000000) @ '' billion'') \<and>
   (\<not> ge p 1000000000 \<and> ge p 1000000 \<longrightarrow>
      formatPopulation h p = toFixed 1 (over p 1000000) @ '' million'') \<and>
   (\<not> ge p 1000000 \<longrightarrow> formatPopulation h p = h p) \<and>
   (ge p 1000000000000 \<longrightarrow>
      formatGDP h p = ''$'' @ toFixed 2 (over p 1000000000000) @ '' trillion'') \<and>
   (\<not> ge p 1000000000000 \<and> ge p 1000000000 \<longrightarrow>
      formatGDP h p = ''$'' @ toFixed 1 (over p 1000000000) @ '' billion'') \<and>
   (\<not> ge p 1000000000 \<and> ge p 1000000 \<longrightarrow>
      formatGDP h p = ''$'' @ toFixed 0 (over p 1000000) @ '' million'') \<and>
   (\<not> ge p 1000000 \<longrightarrow> formatGDP h p = ''$'' @ h p)"
proof -
  have q: "to_double (3 / 2) = Fin (3 / 2)"
    using to_double_exact [of "3 / 2" 3 "- 1"] by (simp add: pow2_def)
  have i: "to_double 25 = Fin 25" "to_double 2 = Fin 2" "to_double 1 = Fin 1"
    using to_double_int [of 25] to_double_int [of 2] to_double_int [of 1] by simp_all
  have f: "toFixed 2 (Fin (3 / 2)) = ''1.50''" "toFixed (Suc 0) (Fin 25) = ''25.0''"
    "toFixed 2 (Fin 2) = ''2.00''" "toFixed 2 (Fin 1) = ''1.00''"
    "toFixed (Suc 0) (Fin 1) = ''1.0''" "toFixed 0 (Fin 1) = ''1''"
    by code_simp+
  have 1: "formatPopulation h (Fin 1500000000) = ''1.50 billion''"
    "formatPopulation h (Fin 25000000) = ''25.0 million''"
    "formatGDP h (Fin 2000000000000) = ''$2.00 trillion''"
    "formatPopulation h (Fin 1000000000) = ''1.00 billion''"
    "formatPopulation h (Fin 1000000) = ''1.0 million''"
    "formatPopulation h (Fin 999999) = h (Fin 999999)"
    "formatGDP h (Fin 1000000000000) = ''$1.00 trillion''"
    "formatGDP h (Fin 1000000000) = ''$1.0 billion''"
    "formatGDP h (Fin 1000000) = ''$1 million''"
    "formatGDP h (Fin 999999) = ''$'' @ h (Fin 999999)"
    by (simp_all add: formatPopulation_def formatGDP_def q i f del: toFixed.simps)
  have 2: "formatArea h a = h a @ '' km'' @ [CHR 0xC2, CHR 0xB2]" for a
    by (simp add: formatArea_def)
  have 3: "h (Fin 17075400) = ''17,075,400'' \<longrightarrow>
      formatArea h (Fin 17075400) = ''17,075,400 km'' @ [CHR 0xC2, CHR 0xB2]"
    by (simp add: formatArea_def)
  have l: "ge p 1000000000000 \<Longrightarrow> ge p 1000000000" "ge p 1000000000 \<Longrightarrow> ge p 1000000"
    by (cases p; simp)+
  have 4: "ge p 1000000000 \<longrightarrow>
      formatPopulation h p = toFixed 2 (over p 1000000000) @ '' billion''"
    "\<not> ge p 1000000000 \<and> ge p 1000000 \<longrightarrow>
      formatPopulation h p = toFixed 1 (over p 1000000) @ '' million''"
    "\<not> ge p 1000000 \<longrightarrow> formatPopulation h p = h p"
    using l by (auto simp: formatPopulation_def)
  have 5: "ge p 1000000000000 \<longrightarrow>
      formatGDP h p = ''$'' @ toFixed 2 (over p 1000000000000) @ '' trillion''"
    "\<not> ge p 1000000000000 \<and> ge p 1000000000 \<longrightarrow>
      formatGDP h p = ''$'' @ toFixed 1 (over p 1000000000) @ '' billion''"
    "\<not> ge p 1000000000 \<and> ge p 1000000 \<longrightarrow>
      formatGDP h p = ''$'' @ toFixed 0 (over p 1000000) @ '' million''"
    "\<not> ge p 1000000 \<longrightarrow> formatGDP h p = ''$'' @ h p"
    using l by (auto simp: formatGDP_def)
  from 1 2 3 4 5 show ?thesis
    by (intro conjI)
qed

text \<open>
  A host that prints 17075400 as \<open>17,075,400\<close>, and the tiers at a population of 25
  million, at one of 999999 and at a GDP of 2500 million.
\<close>

theorem formatting_rules_witness:
  "en_US (Fin 17075400) = ''17,075,400'' \<and>
   formatArea en_US (Fin 17075400) = ''17,075,400 km'' @ [CHR 0xC2, CHR 0xB2] \<and>
   \<not> ge (Fin 25000000) 1000000000 \<and> ge (Fin 25000000) 1000000 \<and>
   formatPopulation en_US (Fin 25000000) = toFixed 1 (over (Fin 25000000) 1000000) @ '' million'' \<and>
   \<not> ge (Fin 999999) 1000000 \<and>
   formatPopulation en_US (Fin 999999) = en_US (Fin 999999) \<and>
   formatGDP en_US (Fin 999999) = ''$'' @ en_US (Fin 999999) \<and>
   ge (Fin 2500000000) 1000000000 \<and> \<not> ge (Fin 2500000000) 1000000000000 \<and>
   formatPopulation en_US (Fin 2500000000) = toFixed 2 (over (Fin 2500000000) 1000000000) @ '' billion'' \<and>
   formatGDP en_US (Fin 2500000000) = ''$'' @ toFixed 1 (over (Fin 2500000000) 1000000000) @ '' billion'' \<and>
   formatGDP en_US (Fin 25000000) = ''$'' @ toFixed 0 (over (Fin 25000000) 1000000) @ '' million'' \<and>
   ge (Fin 2000000000000) 1000000000000 \<and>
   formatGDP en_US (Fin 2000000000000) =
     ''$'' @ toFixed 2 (over (Fin 2000000000000) 1000000000000) @ '' trillion''"
proof -
  have g: "\<not> ge (Fin 25000000) 1000000000" "ge (Fin 25000000) 1000000"
    "\<not> ge (Fin 999999) 1000000" "ge (Fin 2500000000) 1000000000"
    "\<not> ge (Fin 2500000000) 1000000000000" "ge (Fin 2000000000000) 1000000000000"
    by simp_all
  note a = formatting_rules [of en_US "Fin 17075400" "Fin 25000000"]
  note b = formatting_rules [of en_US "Fin 17075400" "Fin 999999"]
  note c = formatting_rules [of en_US "Fin 17075400" "Fin 2500000000"]
  note d = formatting_rules [of en_US "Fin 17075400" "Fin 2000000000000"]
  from a en_US_17075400
  have 1: "formatArea en_US (Fin 17075400) = ''17,075,400 km'' @ [CHR 0xC2, CHR 0xB2]"
    by blast
  from a g have 2:
    "formatPopulation en_US (Fin 25000000) = toFixed 1 (over (Fin 25000000) 1000000) @ '' million''"
    "formatGDP en_US (Fin 25000000) = ''$'' @ toFixed 0 (over (Fin 25000000) 1000000) @ '' million''"
    by blast+
  from b g have 3: "formatPopulation en_US (Fin 999999) = en_US (Fin 999999)"
    "formatGDP en_US (Fin 999999) = ''$'' @ en_US (Fin 999999)"
    by blast+
  from c g have 4:
    "formatPopulation en_US (Fin 2500000000) = toFixed 2 (over (Fin 2500000000) 1000000000) @ '' billion''"
    "formatGDP en_US (Fin 2500000000) = ''$'' @ toFixed 1 (over (Fin 2500000000) 1000000000) @ '' billion''"
    by blast+
  from d g have 5: "formatGDP en_US (Fin 2000000000000) =
     ''$'' @ toFixed 2 (over (Fin 2000000000000) 1000000000000) @ '' trillion''"
    by blast
  from en_US_17075400 1 g 2 3 4 5 show ?thesis
    by (intro conjI)
qed

text \<open>
  The specification states that \<open>formatArea(17075400)\<close> is \<open>17,075,400\<close> with the suffix,
  whatever the host. On a host that separates the groups with full stops it is not.
\<close>

theorem formatArea_locale_counterexample:
  "formatArea de_DE (Fin 17075400) = ''17.075.400 km'' @ [CHR 0xC2, CHR 0xB2] \<and>
   formatArea de_DE (Fin 17075400) \<noteq> ''17,075,400 km'' @ [CHR 0xC2, CHR 0xB2]"
  by (simp add: formatArea_def de_DE_17075400)

end
